theory Spec2Isabelle
  imports Main
begin

section \<open>Go values shared by the two drivers\<close>

text \<open>
  A Go function that can panic at run time (index or slice out of range, nil
  dereference) is modelled with an explicit outcome: either it returns its
  value, or it panics.
\<close>

datatype panic = IndexOutOfRange | SliceBoundsOutOfRange | NilDereference

datatype 'a outcome = Returned 'a | Panicked panic

text \<open>
  The lifecycle states of \<open>libmachine/state\<close> that the two drivers return.
\<close>

datatype State = NoneState | Running | Stopped | Stopping | Starting | Error

text \<open>\<open>strings.Contains\<close>, \<open>strings.HasPrefix\<close> and \<open>strings.Split\<close> on a one-byte separator.\<close>

fun HasPrefix :: "string \<Rightarrow> string \<Rightarrow> bool" where
  "HasPrefix s [] = True"
| "HasPrefix [] (y # ys) = False"
| "HasPrefix (x # xs) (y # ys) = (x = y \<and> HasPrefix xs ys)"

fun Contains :: "string \<Rightarrow> string \<Rightarrow> bool" where
  "Contains [] sub = (sub = [])"
| "Contains (x # xs) sub = (HasPrefix (x # xs) sub \<or> Contains xs sub)"

fun Split :: "string \<Rightarrow> char \<Rightarrow> string list" where
  "Split [] sep = [[]]"
| "Split (x # xs) sep =
     (if x = sep then [] # Split xs sep
      else (case Split xs sep of
              [] \<Rightarrow> [[x]]
            | part # parts \<Rightarrow> (x # part) # parts))"

section \<open>The google driver\<close>

subsection \<open>Errors, resources and the environment\<close>

text \<open>One entry of \<open>raw.OperationError.Errors\<close>.\<close>

record operation_error_item =
  oe_code :: string
  oe_location :: string
  oe_message :: string

text \<open>
  The error values of the google driver. \<open>ApiError code message\<close> is a
  \<open>*googleapi.Error\<close>; the other constructors are the values built by
  \<open>errors.New\<close> and \<open>fmt.Errorf\<close> in the source, and \<open>OtherError\<close> stands for
  an error of any other dynamic type (transport, file system, credentials).
\<close>

datatype goerror =
    ApiError nat string
  | BackoffFactoryUndefined
  | OperationFailed operation_error_item
  | BackoffElapsed
  | RequestingFirewallRule goerror
  | SwarmPortError goerror
  | ErrHostIsNotRunning
  | OtherError string

text \<open>\<open>isNotFound\<close>: a \<open>*googleapi.Error\<close> whose code is \<open>http.StatusNotFound\<close>.\<close>

fun isNotFound :: "goerror \<Rightarrow> bool" where
  "isNotFound (ApiError code msg) = (code = 404)"
| "isNotFound _ = False"


text \<open>
  \<open>backoffFactory\<close> holds the five parameters copied into the exponential
  backoff; durations are \<open>time.Duration\<close> values (nanoseconds), the two factors
  are kept as a pair numerator/denominator since the driver only passes them on.
\<close>

record backoffFactory =
  InitialInterval :: int
  RandomizationFactor :: "int \<times> int"
  Multiplier :: "int \<times> int"
  MaxInterval :: int
  MaxElapsedTime :: int

text \<open>\<open>backoff.Stop\<close>, the duration by which \<open>NextBackOff\<close> says that the budget is spent.\<close>

definition backoff_Stop :: int where
  "backoff_Stop = - 1"

record operation =
  op_name :: string
  op_status :: string
  op_error :: "operation_error_item list option"

record network_interface =
  NetworkIP :: string
  AccessConfigs :: "string list"

text \<open>
  The fields of \<open>raw.Instance\<close> that the driver reads; \<open>AccessConfigs\<close> above is
  the \<open>NatIP\<close> of each access configuration, and \<open>Tags\<close> and \<open>Metadata\<close> are
  pointers (\<open>None\<close> is \<open>nil\<close>).
\<close>

record gce_instance =
  Status :: string
  NetworkInterfaces :: "network_interface list"
  Tags :: "string list option"
  Metadata :: "(string \<times> string) list option"

record firewall_allowed =
  IPProtocol :: string
  Ports :: "string list"

record firewall =
  fw_Name :: string
  Allowed :: "firewall_allowed list"
  SourceRanges :: "string list"
  TargetTags :: "string list"
  fw_Network :: string

section \<open>The amazonec2 driver: errors and resources\<close>

text \<open>
  An error answered by the EC2 client: \<open>aws_code\<close> is the code when the error
  is an \<open>awserr.Error\<close>, \<open>err_text\<close> is what its \<open>Error()\<close> method prints.
\<close>

record apierror =
  aws_code :: "string option"
  err_text :: string

text \<open>
  The error values of the amazonec2 driver: an error of the client or of the
  file system passed on as it is, and the values built by \<open>errors.New\<close>,
  \<open>fmt.Errorf\<close> and \<open>mcnutils\<close> in the source.
\<close>

datatype ec2error =
    Api apierror
  | NoKeypairWithName string
  | KeypairAlreadyExists string
  | NoSubnetFound string string
  | UnableToCreateKeyPair ec2error
  | ErrorReadingUserData
  | ErrorLaunchingInstance ec2error
  | ErrorUnprocessableLaunch
  | ErrorSettingTags ec2error
  | ErrorGettingInstance
  | NoPrivateIP string
  | NoIP string
  | UnableToTerminate apierror
  | InvalidPortNumber string
  | MaxRetriesExceeded nat
  | MultiError "ec2error list"

record IpPermission =
  IpProtocol :: string
  FromPort :: "int option"
  ToPort :: "int option"
  IpRanges :: "string list"

record SecurityGroup =
  GroupId :: string
  GroupName :: string
  sg_VpcId :: string
  IpPermissions :: "IpPermission list"

text \<open>
  The fields of \<open>ec2.Instance\<close> that the driver reads. The two addresses are
  pointers that the source tests against \<open>nil\<close>; the identifier and the state
  name are dereferenced without a test and are taken to be present.
\<close>

record ec2_instance =
  inst_InstanceId :: string
  State_Name :: string
  PublicIpAddress :: "string option"
  PrivateIpAddress :: "string option"

record subnet =
  sn_SubnetId :: string
  DefaultForAz :: "bool option"

text \<open>The request of \<open>RunInstances\<close>, as far as the driver's choices show in it.\<close>

record run_instances_input =
  ri_KeyName :: string
  ri_Groups :: "string list"
  ri_UserData :: string
  ri_spot :: bool
  ri_TagSpecifications :: "(string \<times> (string \<times> string) list) list"

section \<open>Effects and runs\<close>

text \<open>
  What a run does to the outside, in order: the requests sent to the Compute
  API and to the EC2 client, \<open>time.Sleep\<close>, and the warnings written to the log.
\<close>

datatype effect =
    InstancesGet
  | DisksGet
  | AddressesGet string string
  | FirewallsGet
  | FirewallsInsert firewall
  | FirewallsUpdate firewall
  | InstancesInsert "string option" "string list" bool
  | InstancesDelete
  | DisksDelete
  | InstancesStop
  | InstancesSetTags "string list"
  | InstancesSetMetadata "(string \<times> string) list"
  | ZoneOperationsWait string
  | GlobalOperationsWait string
  | DescribeKeyPairs string
  | DescribeSubnets string string
  | ImportKeyPair string
  | DeleteKeyPair string
  | DescribeSecurityGroups "string list" string
  | DescribeSecurityGroupsById string
  | CreateSecurityGroup string string
  | AuthorizeSecurityGroupIngress string "IpPermission list"
  | RunInstances run_instances_input
  | CreateTags string "(string \<times> string) list"
  | DescribeInstances string
  | TerminateInstances string
  | Sleep int
  | Warn string

text \<open>The requests that change a resource of the backend.\<close>

fun mutating :: "effect \<Rightarrow> bool" where
  "mutating (FirewallsInsert r) = True"
| "mutating (FirewallsUpdate r) = True"
| "mutating (InstancesInsert s a b) = True"
| "mutating InstancesDelete = True"
| "mutating DisksDelete = True"
| "mutating InstancesStop = True"
| "mutating (InstancesSetTags t) = True"
| "mutating (InstancesSetMetadata m) = True"
| "mutating (ImportKeyPair n) = True"
| "mutating (DeleteKeyPair n) = True"
| "mutating (CreateSecurityGroup n v) = True"
| "mutating (AuthorizeSecurityGroupIngress g ps) = True"
| "mutating (RunInstances r) = True"
| "mutating (CreateTags i ts) = True"
| "mutating (TerminateInstances i) = True"
| "mutating _ = False"

text \<open>The requests, as opposed to sleeping and logging.\<close>

fun is_request :: "effect \<Rightarrow> bool" where
  "is_request (Sleep n) = False"
| "is_request (Warn s) = False"
| "is_request _ = True"

subsection \<open>Runs\<close>

text \<open>
  A run of a driver function: \<open>None\<close> when it never returns, otherwise its
  outcome and the effects it had, in order.
\<close>

type_synonym 'a run = "('a outcome \<times> effect list) option"

definition ret :: "'a \<Rightarrow> 'a run" where
  "ret a = Some (Returned a, [])"

definition panic_run :: "panic \<Rightarrow> 'a run" where
  "panic_run p = Some (Panicked p, [])"

definition request :: "effect \<Rightarrow> 'a \<Rightarrow> 'a run" where
  "request e a = Some (Returned a, [e])"

definition andThen :: "'a run \<Rightarrow> ('a \<Rightarrow> 'b run) \<Rightarrow> 'b run" where
  "andThen m f =
     (case m of
        None \<Rightarrow> None
      | Some (Panicked p, es) \<Rightarrow> Some (Panicked p, es)
      | Some (Returned a, es) \<Rightarrow>
          (case f a of
             None \<Rightarrow> None
           | Some (r, es') \<Rightarrow> Some (r, es @ es')))"

text \<open>
  The environment of a run: the answer of the backend to each request, the
  answers of the file system and of the credentials lookup, and the library
  functions that are not part of the sources. A request that returns a pointer
  and an error is a pair where the source tests the pointer against \<open>nil\<close>, and a
  sum (the error, or the name of the started operation) elsewhere.
  \<^item> \<open>zone_operations_wait name k\<close> is the answer to the \<open>k\<close>-th fetch of operation \<open>name\<close>;
  \<^item> \<open>next_backoff name bf k\<close> is the \<open>k\<close>-th answer of \<open>NextBackOff\<close> of the backoff
    created from \<open>bf\<close> for the wait on \<open>name\<close> (it depends on the clock and on a
    random source);
  \<^item> \<open>SplitPortProto\<close> is \<open>driverutil.SplitPortProto\<close>, \<open>url_parse_host\<close> is
    \<open>url.Parse\<close> followed by \<open>.Host\<close>, \<open>network_project_match\<close> is the first group
    of \<open>networkProjectRegex\<close> when it matches;
  \<^item> \<open>range_order\<close> is the order in which \<open>range\<close> visits a Go map, which the
    language leaves unspecified.
\<close>

record gce =
  default_client :: "goerror option"
  instances_get :: "gce_instance option \<times> goerror option"
  disks_get :: "string option \<times> goerror option"
  addresses_get :: "string \<Rightarrow> string \<Rightarrow> goerror + string"
  firewalls_get :: "firewall option \<times> goerror option"
  firewalls_insert :: "firewall \<Rightarrow> goerror + string"
  firewalls_update :: "firewall \<Rightarrow> goerror + string"
  instances_insert :: "goerror + string"
  instances_delete :: "goerror + string"
  disks_delete :: "goerror + string"
  instances_stop :: "goerror + string"
  instances_set_tags :: "string list \<Rightarrow> goerror + string"
  instances_set_metadata :: "(string \<times> string) list \<Rightarrow> goerror + string"
  zone_operations_wait :: "string \<Rightarrow> nat \<Rightarrow> goerror + operation"
  global_operations_wait :: "string \<Rightarrow> nat \<Rightarrow> goerror + operation"
  next_backoff :: "string \<Rightarrow> backoffFactory \<Rightarrow> nat \<Rightarrow> int"
  generate_ssh_key :: "goerror option"
  read_public_key :: "goerror + string"
  prepare_metadata :: "goerror option"
  SplitPortProto :: "string \<Rightarrow> string \<times> string"
  url_parse_host :: "string \<Rightarrow> goerror + string"
  network_project_match :: "string \<Rightarrow> string option"
  range_order :: "(string \<times> string list) list \<Rightarrow> (string \<times> string list) list"

record google_Driver =
  MachineName :: string
  IPAddress :: string
  SSHUser :: string
  SwarmMaster :: bool
  SwarmHost :: string
  Zone :: string
  Project :: string
  Address :: string
  Network :: string
  Subnetwork :: string
  UseInternalIP :: bool
  UseInternalIPOnly :: bool
  UseExisting :: bool
  OpenPorts :: "string list"
  SkipFirewall :: bool
  OperationBackoffFactory :: "backoffFactory option"

record ComputeUtil =
  zone :: string
  instanceName :: string
  userName :: string
  project :: string
  address :: string
  networkProject :: string
  network :: string
  subnetwork :: string
  useInternalIP :: bool
  useInternalIPOnly :: bool
  globalURL :: string
  cSwarmMaster :: bool
  cSwarmHost :: string
  openPorts :: "string list"
  skipFirewall :: bool
  operationBackoffFactory :: "backoffFactory option"

definition apiURL :: string where
  "apiURL = ''https://www.googleapis.com/compute/v1/projects/''"

definition firewallRuleName :: string where
  "firewallRuleName = ''docker-machines''"

definition dockerPort :: string where
  "dockerPort = ''2376''"

definition firewallTargetTag :: string where
  "firewallTargetTag = ''docker-machine''"

subsection \<open>newComputeUtil\<close>

definition newComputeUtil :: "gce \<Rightarrow> google_Driver \<Rightarrow> goerror + ComputeUtil" where
  "newComputeUtil w d =
     (case default_client w of
        Some err \<Rightarrow> Inl err
      | None \<Rightarrow>
          Inr \<lparr> zone = Zone d,
                instanceName = MachineName d,
                userName = SSHUser d,
                project = Project d,
                address = Address d,
                networkProject =
                  (case network_project_match w (Network d) of
                     Some p \<Rightarrow> p
                   | None \<Rightarrow> Project d),
                network = Network d,
                subnetwork = Subnetwork d,
                useInternalIP = UseInternalIP d,
                useInternalIPOnly = UseInternalIPOnly d,
                globalURL = apiURL @ Project d @ ''/global'',
                cSwarmMaster = SwarmMaster d,
                cSwarmHost = SwarmHost d,
                openPorts = OpenPorts d,
                skipFirewall = SkipFirewall d,
                operationBackoffFactory = OperationBackoffFactory d \<rparr>)"

subsection \<open>The operation poller\<close>

text \<open>
  The loop of \<open>waitForOp\<close>. The \<open>i\<close>-th iteration makes the \<open>i\<close>-th fetch and,
  when the operation is not done, the \<open>i\<close>-th call of \<open>NextBackOff\<close>; \<open>fetch\<close> is
  the request that the getter sends, \<open>sofar\<close> the effects up to there. The loop has no
  bound of its own, so it is a partial function.
\<close>

partial_function (option) waitLoop ::
  "(nat \<Rightarrow> goerror + operation) \<Rightarrow> effect \<Rightarrow> (nat \<Rightarrow> int) \<Rightarrow> nat \<Rightarrow> effect list
     \<Rightarrow> (goerror option outcome \<times> effect list) option" where
  "waitLoop opGetter fetch NextBackOff i sofar =
     (case opGetter i of
        Inl err \<Rightarrow> Some (Returned (Some err), sofar @ [fetch])
      | Inr op \<Rightarrow>
          if op_status op = ''DONE'' then
            (case op_error op of
               Some errors \<Rightarrow>
                 (case errors of
                    [] \<Rightarrow> Some (Panicked IndexOutOfRange, sofar @ [fetch])
                  | e # rest \<Rightarrow> Some (Returned (Some (OperationFailed e)), sofar @ [fetch]))
             | None \<Rightarrow> Some (Returned None, sofar @ [fetch]))
          else if NextBackOff i = backoff_Stop then
            Some (Returned (Some BackoffElapsed), sofar @ [fetch])
          else waitLoop opGetter fetch NextBackOff (Suc i) (sofar @ [fetch, Sleep (NextBackOff i)]))"

definition waitForOp ::
  "(backoffFactory \<Rightarrow> nat \<Rightarrow> int) \<Rightarrow> ComputeUtil \<Rightarrow> effect \<Rightarrow> (nat \<Rightarrow> goerror + operation)
     \<Rightarrow> goerror option run" where
  "waitForOp create c fetch opGetter =
     (case operationBackoffFactory c of
        None \<Rightarrow> ret (Some BackoffFactoryUndefined)
      | Some bf \<Rightarrow> waitLoop opGetter fetch (create bf) 0 [])"

definition waitForRegionalOp :: "gce \<Rightarrow> ComputeUtil \<Rightarrow> string \<Rightarrow> goerror option run" where
  "waitForRegionalOp w c name =
     waitForOp (next_backoff w name) c (ZoneOperationsWait name) (zone_operations_wait w name)"

definition waitForGlobalOp :: "gce \<Rightarrow> ComputeUtil \<Rightarrow> string \<Rightarrow> goerror option run" where
  "waitForGlobalOp w c name =
     waitForOp (next_backoff w name) c (GlobalOperationsWait name) (global_operations_wait w name)"

subsection \<open>Instance, disk and address\<close>

definition instance_vm :: "gce \<Rightarrow> ComputeUtil \<Rightarrow> (gce_instance option \<times> goerror option) run" where
  "instance_vm w c = request InstancesGet (instances_get w)"

definition disk :: "gce \<Rightarrow> ComputeUtil \<Rightarrow> (string option \<times> goerror option) run" where
  "disk w c = request DisksGet (disks_get w)"

definition deleteDisk :: "gce \<Rightarrow> ComputeUtil \<Rightarrow> goerror option run" where
  "deleteDisk w c =
     andThen (disk w c) (\<lambda>(dsk, err).
       if dsk = None then ret None
       else andThen (request DisksDelete (disks_delete w)) (\<lambda>r.
         case r of
           Inl err \<Rightarrow> ret (Some err)
         | Inr name \<Rightarrow> waitForRegionalOp w c name))"

text \<open>
  \<open>c.zone[:len(c.zone)-2]\<close>: Go panics when the upper bound of the slice
  expression is negative.
\<close>

definition region :: "ComputeUtil \<Rightarrow> string outcome" where
  "region c =
     (if int (length (zone c)) - 2 < 0 then Panicked SliceBoundsOutOfRange
      else Returned (take (length (zone c) - 2) (zone c)))"

text \<open>
  \<open>regexp.MatchString("[a-z]([-a-z0-9]*[a-z0-9])?", c.address)\<close>: the pattern is
  not anchored and its group is optional, so it matches exactly the strings
  that contain a byte in \<open>a\<close>..\<open>z\<close>; the pattern is a constant that compiles,
  so the error branch of the source is never taken.
\<close>

definition lower_letter :: "char \<Rightarrow> bool" where
  "lower_letter ch = (97 \<le> (of_char ch :: nat) \<and> (of_char ch :: nat) \<le> 122)"

definition isName :: "string \<Rightarrow> bool" where
  "isName a = list_ex lower_letter a"

definition staticAddress :: "gce \<Rightarrow> ComputeUtil \<Rightarrow> (goerror + string) run" where
  "staticAddress w c =
     (if \<not> isName (address c) then ret (Inr (address c))
      else (case region c of
              Panicked p \<Rightarrow> panic_run p
            | Returned rg \<Rightarrow>
                request (AddressesGet rg (address c)) (addresses_get w rg (address c))))"

subsection \<open>The firewall rule\<close>

definition firewallRule :: "gce \<Rightarrow> ComputeUtil \<Rightarrow> (firewall option \<times> goerror option) run" where
  "firewallRule w c = request FirewallsGet (firewalls_get w)"

text \<open>
  The keys of the map \<open>opened\<close> of \<open>missingOpenedPorts\<close>: one
  \<open>port/protocol\<close> string for every port of every entry of the rule.
\<close>

definition opened :: "firewall \<Rightarrow> string list" where
  "opened rule =
     concat (map (\<lambda>allowed. map (\<lambda>allowedPort. allowedPort @ ''/'' @ IPProtocol allowed)
                                 (Ports allowed))
                 (Allowed rule))"

text \<open>
  \<open>missing[proto] = append(missing[proto], port)\<close> on the map \<open>missing\<close>, kept as
  an association list with one entry for each protocol.
\<close>

fun append_missing ::
  "string \<Rightarrow> string \<Rightarrow> (string \<times> string list) list \<Rightarrow> (string \<times> string list) list" where
  "append_missing proto port [] = [(proto, [port])]"
| "append_missing proto port ((k, ports) # missing) =
     (if k = proto then (k, ports @ [port]) # missing
      else (k, ports) # append_missing proto port missing)"

fun missing_loop ::
  "(string \<Rightarrow> string \<times> string) \<Rightarrow> string list \<Rightarrow> string list
     \<Rightarrow> (string \<times> string list) list \<Rightarrow> (string \<times> string list) list" where
  "missing_loop split keys [] missing = missing"
| "missing_loop split keys (p # ports) missing =
     (case split p of
        (port, proto) \<Rightarrow>
          if port @ ''/'' @ proto \<notin> set keys
          then missing_loop split keys ports (append_missing proto port missing)
          else missing_loop split keys ports missing)"

definition missingOpenedPorts ::
  "(string \<Rightarrow> string \<times> string) \<Rightarrow> firewall \<Rightarrow> string list \<Rightarrow> (string \<times> string list) list" where
  "missingOpenedPorts split rule ports = missing_loop split (opened rule) ports []"

text \<open>
  \<open>portsUsed\<close>: \<open>strings.Split(u.Host, ":")[1]\<close> panics when the host has no
  colon.
\<close>

definition portsUsed :: "gce \<Rightarrow> ComputeUtil \<Rightarrow> (goerror + string list) outcome" where
  "portsUsed w c =
     (let ports = [dockerPort @ ''/tcp''];
          user = map (\<lambda>p. case SplitPortProto w p of (port, proto) \<Rightarrow> port @ ''/'' @ proto)
                     (openPorts c)
      in if cSwarmMaster c then
           (case url_parse_host w (cSwarmHost c) of
              Inl err \<Rightarrow> Returned (Inl (SwarmPortError err))
            | Inr host \<Rightarrow>
                (case Split host CHR '':'' of
                   first # swarmPort # rest \<Rightarrow> Returned (Inr (ports @ [swarmPort @ ''/tcp''] @ user))
                 | _ \<Rightarrow> Panicked IndexOutOfRange))
         else Returned (Inr (ports @ user)))"

definition new_firewall :: "ComputeUtil \<Rightarrow> google_Driver \<Rightarrow> firewall" where
  "new_firewall c d =
     \<lparr> fw_Name = firewallRuleName,
       Allowed = [],
       SourceRanges = [''0.0.0.0/0''],
       TargetTags = [firewallTargetTag],
       fw_Network = (if Contains (Network d) ''/networks/'' then Network d
                     else globalURL c @ ''/networks/'' @ Network d) \<rparr>"

definition openFirewallPorts :: "gce \<Rightarrow> ComputeUtil \<Rightarrow> google_Driver \<Rightarrow> goerror option run" where
  "openFirewallPorts w c d =
     (if skipFirewall c then ret None
      else andThen (firewallRule w c) (\<lambda>(found, err).
        case err of
          Some e \<Rightarrow> ret (Some (RequestingFirewallRule e))
        | None \<Rightarrow>
            (let create = (found = None);
                 rule = (case found of None \<Rightarrow> new_firewall c d | Some r \<Rightarrow> r)
             in case portsUsed w c of
                  Panicked p \<Rightarrow> panic_run p
                | Returned (Inl e) \<Rightarrow> ret (Some e)
                | Returned (Inr ports) \<Rightarrow>
                    (let missingPorts = missingOpenedPorts (SplitPortProto w) rule ports
                     in if length missingPorts = 0 then ret None
                        else
                          (let rule' = rule \<lparr> Allowed := Allowed rule @
                                 map (\<lambda>(proto, ports). \<lparr> IPProtocol = proto, Ports = ports \<rparr>)
                                     (range_order w missingPorts) \<rparr>
                           in andThen
                                (if create then request (FirewallsInsert rule') (firewalls_insert w rule')
                                 else request (FirewallsUpdate rule') (firewalls_update w rule'))
                                (\<lambda>r. case r of
                                        Inl e \<Rightarrow> ret (Some e)
                                      | Inr name \<Rightarrow> waitForGlobalOp w c name))))))"

subsection \<open>Creating and configuring the instance\<close>

text \<open>
  \<open>uploadSSHKey\<close>: the two metadata items are appended to the metadata of the
  instance, which is dereferenced.
\<close>

definition uploadSSHKey :: "gce \<Rightarrow> ComputeUtil \<Rightarrow> gce_instance option \<Rightarrow> goerror option run" where
  "uploadSSHKey w c inst =
     (case read_public_key w of
        Inl err \<Rightarrow> ret (Some err)
      | Inr sshKey \<Rightarrow>
          (case inst of
             None \<Rightarrow> panic_run NilDereference
           | Some i \<Rightarrow>
               (case Metadata i of
                  None \<Rightarrow> panic_run NilDereference
                | Some items \<Rightarrow>
                    (let metaDataValue = userName c @ '':'' @ sshKey @ '' '' @ userName c @ [CHR 0x0A];
                         items' = items @ [(''sshKeys'', metaDataValue), (''ssh-keys'', metaDataValue)]
                     in andThen (request (InstancesSetMetadata items') (instances_set_metadata w items'))
                          (\<lambda>r. case r of
                                  Inl err \<Rightarrow> ret (Some err)
                                | Inr name \<Rightarrow> waitForRegionalOp w c name)))))"

definition addFirewallTag :: "gce \<Rightarrow> ComputeUtil \<Rightarrow> gce_instance option \<Rightarrow> goerror option run" where
  "addFirewallTag w c inst =
     (case inst of
        None \<Rightarrow> panic_run NilDereference
      | Some i \<Rightarrow>
          (case Tags i of
             None \<Rightarrow> panic_run NilDereference
           | Some items \<Rightarrow>
               if firewallTargetTag \<in> set items then ret None
               else andThen (request (InstancesSetTags (items @ [firewallTargetTag]))
                                     (instances_set_tags w (items @ [firewallTargetTag])))
                      (\<lambda>r. case r of
                              Inl err \<Rightarrow> ret (Some err)
                            | Inr name \<Rightarrow> waitForRegionalOp w c name)))"

definition configureInstance :: "gce \<Rightarrow> ComputeUtil \<Rightarrow> google_Driver \<Rightarrow> goerror option run" where
  "configureInstance w c d =
     andThen (instance_vm w c) (\<lambda>(inst, err).
       case err of
         Some e \<Rightarrow> ret (Some e)
       | None \<Rightarrow>
           andThen (addFirewallTag w c inst) (\<lambda>e.
             case e of
               Some err \<Rightarrow> ret (Some err)
             | None \<Rightarrow> uploadSSHKey w c inst))"

text \<open>
  Lines 380 to 384 of \<open>createInstance\<close>: the subnetwork given to the first
  network interface (\<open>None\<close> when the field is left unset).
\<close>

definition instance_subnetwork :: "ComputeUtil \<Rightarrow> string option outcome" where
  "instance_subnetwork c =
     (if Contains (subnetwork c) ''/subnetworks/'' then Returned (Some (subnetwork c))
      else if subnetwork c \<noteq> '''' then
        (case region c of
           Panicked p \<Rightarrow> Panicked p
         | Returned rg \<Rightarrow>
             Returned (Some (''projects/'' @ networkProject c @ ''/regions/'' @ rg
                              @ ''/subnetworks/'' @ subnetwork c)))
      else Returned None)"

text \<open>
  \<open>createInstance\<close>. Of the request only the subnetwork, the \<open>NatIP\<close> of the
  access configurations and whether a new disk is initialised are kept;
  \<open>prepare_metadata\<close> is the error of \<open>prepareMetadata\<close>, which reads files.
  Writing the static address into \<open>AccessConfigs[0]\<close> panics when there is no
  access configuration.
\<close>

definition createInstance :: "gce \<Rightarrow> ComputeUtil \<Rightarrow> google_Driver \<Rightarrow> goerror option run" where
  "createInstance w c d =
     (case prepare_metadata w of
        Some err \<Rightarrow> ret (Some err)
      | None \<Rightarrow>
          (case instance_subnetwork c of
             Panicked p \<Rightarrow> panic_run p
           | Returned subnet \<Rightarrow>
               (let accessConfigs = (if \<not> useInternalIPOnly c then [''''] else [])
                in andThen
                     (if address c \<noteq> '''' then
                        andThen (staticAddress w c) (\<lambda>r.
                          case r of
                            Inl err \<Rightarrow> ret (Inl err)
                          | Inr a \<Rightarrow>
                              (case accessConfigs of
                                 [] \<Rightarrow> panic_run IndexOutOfRange
                               | cfg # cfgs \<Rightarrow> ret (Inr (a # cfgs))))
                      else ret (Inr accessConfigs))
                     (\<lambda>r. case r of
                        Inl err \<Rightarrow> ret (Some err)
                      | Inr configs \<Rightarrow>
                          andThen (disk w c) (\<lambda>(dsk, derr).
                            andThen (request (InstancesInsert subnet configs (dsk = None \<or> derr \<noteq> None))
                                             (instances_insert w))
                              (\<lambda>r. case r of
                                 Inl err \<Rightarrow> ret (Some err)
                               | Inr name \<Rightarrow>
                                   andThen (waitForRegionalOp w c name) (\<lambda>e.
                                     case e of
                                       Some err \<Rightarrow> ret (Some err)
                                     | None \<Rightarrow>
                                         andThen (instance_vm w c) (\<lambda>(inst, err).
                                           case err of
                                             Some e \<Rightarrow> ret (Some e)
                                           | None \<Rightarrow> uploadSSHKey w c inst))))))))"

definition deleteInstance :: "gce \<Rightarrow> ComputeUtil \<Rightarrow> goerror option run" where
  "deleteInstance w c =
     andThen (request InstancesDelete (instances_delete w)) (\<lambda>r.
       case r of
         Inl err \<Rightarrow> ret (Some err)
       | Inr name \<Rightarrow> waitForRegionalOp w c name)"



subsection \<open>The methods of the google driver\<close>

text \<open>
  A method that assigns to a field of the driver returns the driver next to
  its Go results.
\<close>

definition google_Create :: "gce \<Rightarrow> google_Driver \<Rightarrow> goerror option run" where
  "google_Create w d =
     (case generate_ssh_key w of
        Some err \<Rightarrow> ret (Some err)
      | None \<Rightarrow>
          (case newComputeUtil w d of
             Inl err \<Rightarrow> ret (Some err)
           | Inr c \<Rightarrow>
               andThen (openFirewallPorts w c d) (\<lambda>e.
                 case e of
                   Some err \<Rightarrow> ret (Some err)
                 | None \<Rightarrow>
                     if UseExisting d then configureInstance w c d
                     else createInstance w c d)))"


definition google_GetState :: "gce \<Rightarrow> google_Driver \<Rightarrow> (State \<times> goerror option) run" where
  "google_GetState w d =
     (case newComputeUtil w d of
        Inl err \<Rightarrow> ret (NoneState, Some err)
      | Inr c \<Rightarrow>
          andThen (instance_vm w c) (\<lambda>(inst, err).
            case inst of
              None \<Rightarrow>
                andThen (disk w c) (\<lambda>(dsk, derr).
                  if dsk = None then ret (NoneState, None)
                  else ret (Stopped, None))
            | Some i \<Rightarrow>
                if Status i = ''PROVISIONING'' \<or> Status i = ''STAGING'' then ret (Starting, None)
                else if Status i = ''RUNNING'' then ret (Running, None)
                else if Status i = ''STOPPING'' \<or> Status i = ''STOPPED'' \<or> Status i = ''TERMINATED''
                  then ret (Stopped, None)
                else ret (NoneState, None)))"



text \<open>
  \<open>Remove\<close>: after each of the two deletions an error that is not a not-found
  answer is returned at once; a not-found answer is logged and passed over.
\<close>

definition google_Remove :: "gce \<Rightarrow> google_Driver \<Rightarrow> goerror option run" where
  "google_Remove w d =
     (case newComputeUtil w d of
        Inl err \<Rightarrow> ret (Some err)
      | Inr c \<Rightarrow>
          andThen (deleteInstance w c) (\<lambda>e1.
            andThen
              (case e1 of
                 Some err \<Rightarrow>
                   if isNotFound err
                   then request (Warn ''Remote instance does not exist, proceeding with removing local reference'') None
                   else ret (Some err)
               | None \<Rightarrow> ret None)
              (\<lambda>stop1.
                 case stop1 of
                   Some err \<Rightarrow> ret (Some err)
                 | None \<Rightarrow>
                     andThen (deleteDisk w c) (\<lambda>e2.
                       case e2 of
                         Some err \<Rightarrow>
                           if isNotFound err
                           then request (Warn ''Remote disk does not exist, proceeding'') None
                           else ret (Some err)
                       | None \<Rightarrow> ret None))))"

subsection \<open>A google driver and an environment for the examples\<close>

text \<open>
  The examples below run the driver on a machine \<open>vm\<close> in zone \<open>us-central1-a\<close>
  against an environment in which every request succeeds at once; an example
  changes the fields it is about. \<open>split_at_slash\<close> stands in for the library
  function that parses an open port: it cuts \<open>port/protocol\<close> at the first slash.
\<close>

definition split_at_slash :: "string \<Rightarrow> string \<times> string" where
  "split_at_slash p =
     (takeWhile (\<lambda>ch. ch \<noteq> CHR ''/'') p, drop 1 (dropWhile (\<lambda>ch. ch \<noteq> CHR ''/'') p))"

definition example_factory :: backoffFactory where
  "example_factory =
     \<lparr> InitialInterval = 500000000, RandomizationFactor = (1, 2), Multiplier = (3, 2),
       MaxInterval = 60000000000, MaxElapsedTime = 900000000000 \<rparr>"

definition example_Driver :: google_Driver where
  "example_Driver =
     \<lparr> MachineName = ''vm'', IPAddress = '''', SSHUser = ''docker-user'',
       SwarmMaster = False, SwarmHost = ''tcp://0.0.0.0:3376'',
       Zone = ''us-central1-a'', Project = ''proj'', Address = '''',
       Network = ''default'', Subnetwork = '''',
       UseInternalIP = False, UseInternalIPOnly = False, UseExisting = False,
       OpenPorts = [], SkipFirewall = False,
       OperationBackoffFactory = Some example_factory \<rparr>"

definition example_util :: ComputeUtil where
  "example_util =
     \<lparr> zone = ''us-central1-a'', instanceName = ''vm'', userName = ''docker-user'',
       project = ''proj'', address = '''', networkProject = ''proj'',
       network = ''default'', subnetwork = '''',
       useInternalIP = False, useInternalIPOnly = False,
       globalURL = ''https://www.googleapis.com/compute/v1/projects/proj/global'',
       cSwarmMaster = False, cSwarmHost = ''tcp://0.0.0.0:3376'',
       openPorts = [], skipFirewall = False,
       operationBackoffFactory = Some example_factory \<rparr>"

definition done_operation :: "string \<Rightarrow> operation" where
  "done_operation name = \<lparr> op_name = name, op_status = ''DONE'', op_error = None \<rparr>"

definition running_operation :: "string \<Rightarrow> operation" where
  "running_operation name = \<lparr> op_name = name, op_status = ''RUNNING'', op_error = None \<rparr>"

definition quota_exceeded :: operation_error_item where
  "quota_exceeded = \<lparr> oe_code = ''QUOTA_EXCEEDED'', oe_location = '''', oe_message = ''Quota exceeded'' \<rparr>"

definition example_instance :: gce_instance where
  "example_instance =
     \<lparr> Status = ''RUNNING'',
       NetworkInterfaces = [\<lparr> NetworkIP = ''10.128.0.2'', AccessConfigs = [''203.0.113.7''] \<rparr>],
       Tags = Some [''docker-machine''],
       Metadata = Some [] \<rparr>"

definition example_firewall :: firewall where
  "example_firewall =
     \<lparr> fw_Name = ''docker-machines'',
       Allowed = [\<lparr> IPProtocol = ''tcp'', Ports = [''2376''] \<rparr>],
       SourceRanges = [''0.0.0.0/0''],
       TargetTags = [''docker-machine''],
       fw_Network = ''https://www.googleapis.com/compute/v1/projects/proj/global/networks/default'' \<rparr>"

definition example_gce :: gce where
  "example_gce =
     \<lparr> default_client = None,
       instances_get = (Some example_instance, None),
       disks_get = (Some ''vm-disk'', None),
       addresses_get = (\<lambda>rg name. Inr ''203.0.113.9''),
       firewalls_get = (Some example_firewall, None),
       firewalls_insert = (\<lambda>rule. Inr ''op-firewall''),
       firewalls_update = (\<lambda>rule. Inr ''op-firewall''),
       instances_insert = Inr ''op-insert'',
       instances_delete = Inr ''op-delete'',
       disks_delete = Inr ''op-disk'',
       instances_stop = Inr ''op-stop'',
       instances_set_tags = (\<lambda>tags. Inr ''op-tags''),
       instances_set_metadata = (\<lambda>items. Inr ''op-metadata''),
       zone_operations_wait = (\<lambda>name k. Inr (done_operation name)),
       global_operations_wait = (\<lambda>name k. Inr (done_operation name)),
       next_backoff = (\<lambda>name bf k. InitialInterval bf),
       generate_ssh_key = None,
       read_public_key = Inr ''ssh-rsa AAAA'',
       prepare_metadata = None,
       SplitPortProto = split_at_slash,
       url_parse_host = (\<lambda>u. Inr ''0.0.0.0:3376''),
       network_project_match = (\<lambda>n. None),
       range_order = (\<lambda>m. m) \<rparr>"

section \<open>The amazonec2 driver\<close>

subsection \<open>Constants, the driver and the environment\<close>

definition ipRange :: string where
  "ipRange = ''0.0.0.0/0''"

definition keypairNotFoundCode :: string where
  "keypairNotFoundCode = ''InvalidKeyPair.NotFound''"

definition amazonec2_dockerPort :: int where
  "amazonec2_dockerPort = 2376"

definition swarmPort :: int where
  "swarmPort = 3376"

text \<open>The instance state names of the EC2 client library.\<close>

definition InstanceStateNamePending :: string where
  "InstanceStateNamePending = ''pending''"

definition InstanceStateNameRunning :: string where
  "InstanceStateNameRunning = ''running''"

definition InstanceStateNameShuttingDown :: string where
  "InstanceStateNameShuttingDown = ''shutting-down''"

definition InstanceStateNameTerminated :: string where
  "InstanceStateNameTerminated = ''terminated''"

definition InstanceStateNameStopping :: string where
  "InstanceStateNameStopping = ''stopping''"

definition InstanceStateNameStopped :: string where
  "InstanceStateNameStopped = ''stopped''"

record amazonec2_Driver =
  MachineName :: string
  IPAddress :: string
  SSHPort :: int
  SwarmMaster :: bool
  ExistingKey :: bool
  KeyName :: string
  InstanceId :: string
  PrivateIPAddress :: string
  SecurityGroupId :: string
  SecurityGroupIds :: "string list"
  SecurityGroupName :: string
  SecurityGroupNames :: "string list"
  SecurityGroupReadOnly :: bool
  OpenPorts :: "string list"
  Tags :: string
  VpcId :: string
  SubnetId :: string
  Region :: string
  Zone :: string
  Endpoint :: string
  RequestSpotInstance :: bool
  PrivateIPOnly :: bool
  UsePrivateIP :: bool
  SSHPrivateKeyPath :: string
  UserDataFile :: string

text \<open>
  The environment of a run of the amazonec2 driver: the answer of the EC2
  client to each request, the answers of the file system, and the library
  functions that are not part of the sources (\<open>driverutil.SplitPortProto\<close>,
  base64 encoding). \<open>max_attempts\<close> is the bound of \<open>mcnutils.WaitFor\<close>.
\<close>

record ec2 =
  describe_key_pairs :: "string \<Rightarrow> apierror + nat"
  describe_subnets :: "string \<Rightarrow> string \<Rightarrow> apierror + subnet list"
  import_key_pair :: "string \<Rightarrow> apierror option"
  delete_key_pair :: "string \<Rightarrow> apierror option"
  describe_security_groups :: "string list \<Rightarrow> string \<Rightarrow> apierror + SecurityGroup list"
  describe_security_groups_by_id :: "string \<Rightarrow> apierror + nat"
  create_security_group :: "string \<Rightarrow> string \<Rightarrow> apierror + string"
  authorize_security_group_ingress :: "string \<Rightarrow> IpPermission list \<Rightarrow> apierror option"
  run_instances :: "run_instances_input \<Rightarrow> apierror + ec2_instance list option"
  create_tags :: "string \<Rightarrow> (string \<times> string) list \<Rightarrow> apierror option"
  describe_instances :: "string \<Rightarrow> apierror + ec2_instance list list option"
  terminate_instances :: "string \<Rightarrow> apierror option"
  fs_generate_ssh_key :: "apierror option"
  fs_copy_private_key :: "apierror option"
  fs_copy_public_key :: "apierror option"
  fs_read_public_key :: "apierror + string"
  fs_read_user_data :: "apierror + string"
  base64 :: "string \<Rightarrow> string"
  ec2_SplitPortProto :: "string \<Rightarrow> string \<times> string"
  max_attempts :: nat

subsection \<open>Numbers as text\<close>

text \<open>The verb \<open>%d\<close> of \<open>fmt.Sprintf\<close>: the decimal digits, after a minus sign for a negative number.\<close>

definition digit_char :: "nat \<Rightarrow> char" where
  "digit_char k = char_of (48 + k)"

fun decimal :: "nat \<Rightarrow> string" where
  "decimal n = (if n < 10 then [digit_char n] else decimal (n div 10) @ [digit_char (n mod 10)])"

declare decimal.simps [simp del]

definition Sprint_d :: "int \<Rightarrow> string" where
  "Sprint_d n = (if n < 0 then CHR ''-'' # decimal (nat (- n)) else decimal (nat n))"

text \<open>
  \<open>strconv.ParseInt(port, 10, 0)\<close>, where \<open>int\<close> has 64 bits: an optional sign,
  then at least one decimal digit and nothing else, and the value in the range
  of \<open>int64\<close>; \<open>None\<close> is the error.
\<close>

definition is_digit :: "char \<Rightarrow> bool" where
  "is_digit ch = (48 \<le> (of_char ch :: nat) \<and> (of_char ch :: nat) \<le> 57)"

fun parse_digits :: "string \<Rightarrow> nat \<Rightarrow> nat option" where
  "parse_digits [] acc = Some acc"
| "parse_digits (ch # s) acc =
     (if is_digit ch then parse_digits s (10 * acc + (of_char ch - 48)) else None)"

definition ParseUint :: "string \<Rightarrow> nat option" where
  "ParseUint s = (if s = [] then None else parse_digits s 0)"

definition ParseInt :: "string \<Rightarrow> int option" where
  "ParseInt s =
     (case s of
        [] \<Rightarrow> None
      | ch # rest \<Rightarrow>
          (let neg = (ch = CHR ''-'');
               body = (if ch = CHR ''+'' \<or> ch = CHR ''-'' then rest else s)
           in case ParseUint body of
                None \<Rightarrow> None
              | Some un \<Rightarrow>
                  if \<not> neg \<and> 2 ^ 63 \<le> un then None
                  else if neg \<and> 2 ^ 63 < un then None
                  else Some (if neg then - int un else int un)))"

subsection \<open>Bounded polling\<close>

text \<open>
  Modelled from the spec: \<open>mcnutils.WaitFor\<close> is not in the sources. It is the
  bounded wait of the spec: the condition is polled until it holds, and an
  error is returned when the bound on the number of polls is reached. The
  pause between two polls is left out.
\<close>

fun poll :: "nat \<Rightarrow> ('s \<Rightarrow> (bool \<times> 's) run) \<Rightarrow> 's \<Rightarrow> (bool \<times> 's) run" where
  "poll 0 f s = ret (False, s)"
| "poll (Suc n) f s =
     andThen (f s) (\<lambda>(ok, s'). if ok then ret (True, s') else poll n f s')"

definition WaitFor :: "ec2 \<Rightarrow> ('s \<Rightarrow> (bool \<times> 's) run) \<Rightarrow> 's \<Rightarrow> (ec2error option \<times> 's) run" where
  "WaitFor w f s =
     andThen (poll (max_attempts w) f s) (\<lambda>(ok, s').
       if ok then ret (None, s') else ret (Some (MaxRetriesExceeded (max_attempts w)), s'))"

subsection \<open>Queries\<close>

definition getRegionZone :: "amazonec2_Driver \<Rightarrow> string" where
  "getRegionZone d = (if Endpoint d = '''' then Region d @ Zone d else Zone d)"

text \<open>\<open>migrateStringToSlice\<close> and its two uses.\<close>

definition migrateStringToSlice :: "string \<Rightarrow> string list \<Rightarrow> string list" where
  "migrateStringToSlice v vs = (if v \<noteq> '''' then [v] else []) @ vs"

definition securityGroupNames :: "amazonec2_Driver \<Rightarrow> string list" where
  "securityGroupNames d = migrateStringToSlice (SecurityGroupName d) (SecurityGroupNames d)"

definition securityGroupIds :: "amazonec2_Driver \<Rightarrow> string list" where
  "securityGroupIds d = migrateStringToSlice (SecurityGroupId d) (SecurityGroupIds d)"

definition getInstance :: "ec2 \<Rightarrow> amazonec2_Driver \<Rightarrow> (ec2error + ec2_instance) run" where
  "getInstance w d =
     andThen (request (DescribeInstances (InstanceId d)) (describe_instances w (InstanceId d))) (\<lambda>r.
       case r of
         Inl err \<Rightarrow> ret (Inl (Api err))
       | Inr None \<Rightarrow> ret (Inl ErrorGettingInstance)
       | Inr (Some reservations) \<Rightarrow>
           (case reservations of
              [] \<Rightarrow> ret (Inl ErrorGettingInstance)
            | instances # others \<Rightarrow>
                (case instances of
                   [] \<Rightarrow> ret (Inl ErrorGettingInstance)
                 | inst # insts \<Rightarrow> ret (Inr inst))))"

text \<open>\<open>GetIP\<close> assigns to no field of the driver.\<close>

definition amazonec2_GetIP :: "ec2 \<Rightarrow> amazonec2_Driver \<Rightarrow> (ec2error + string) run" where
  "amazonec2_GetIP w d =
     (if IPAddress d \<noteq> '''' then ret (Inr (IPAddress d))
      else andThen (getInstance w d) (\<lambda>r.
        case r of
          Inl err \<Rightarrow> ret (Inl err)
        | Inr inst \<Rightarrow>
            if PrivateIPOnly d then
              (case PrivateIpAddress inst of
                 None \<Rightarrow> ret (Inl (NoPrivateIP (inst_InstanceId inst)))
               | Some a \<Rightarrow> ret (Inr a))
            else if UsePrivateIP d then
              (case PrivateIpAddress inst of
                 None \<Rightarrow> ret (Inl (NoPrivateIP (inst_InstanceId inst)))
               | Some a \<Rightarrow> ret (Inr a))
            else
              (case PublicIpAddress inst of
                 None \<Rightarrow> ret (Inl (NoIP (inst_InstanceId inst)))
               | Some a \<Rightarrow> ret (Inr a))))"

definition amazonec2_GetState :: "ec2 \<Rightarrow> amazonec2_Driver \<Rightarrow> (State \<times> ec2error option) run" where
  "amazonec2_GetState w d =
     andThen (getInstance w d) (\<lambda>r.
       case r of
         Inl err \<Rightarrow> ret (Error, Some err)
       | Inr inst \<Rightarrow>
           if State_Name inst = InstanceStateNamePending then ret (Starting, None)
           else if State_Name inst = InstanceStateNameRunning then ret (Running, None)
           else if State_Name inst = InstanceStateNameStopping then ret (Stopping, None)
           else if State_Name inst = InstanceStateNameShuttingDown then ret (Stopping, None)
           else if State_Name inst = InstanceStateNameStopped then ret (Stopped, None)
           else if State_Name inst = InstanceStateNameTerminated then ret (Error, None)
           else request (Warn (''unrecognized instance state: '' @ State_Name inst)) (Error, None))"

definition instanceIpAvailable :: "ec2 \<Rightarrow> amazonec2_Driver \<Rightarrow> (bool \<times> amazonec2_Driver) run" where
  "instanceIpAvailable w d =
     andThen (amazonec2_GetIP w d) (\<lambda>r.
       case r of
         Inl err \<Rightarrow> ret (False, d)
       | Inr a \<Rightarrow> if a \<noteq> '''' then ret (True, d \<lparr> IPAddress := a \<rparr>) else ret (False, d))"

definition instanceIsRunning :: "ec2 \<Rightarrow> amazonec2_Driver \<Rightarrow> (bool \<times> amazonec2_Driver) run" where
  "instanceIsRunning w d =
     andThen (amazonec2_GetState w d) (\<lambda>(st, err). ret (st = Running, d))"

definition waitForInstance :: "ec2 \<Rightarrow> amazonec2_Driver \<Rightarrow> (ec2error option \<times> amazonec2_Driver) run" where
  "waitForInstance w d = WaitFor w (instanceIsRunning w) d"

subsection \<open>Teardown\<close>

definition terminate :: "ec2 \<Rightarrow> amazonec2_Driver \<Rightarrow> ec2error option run" where
  "terminate w d =
     (if InstanceId d = '''' then
        request (Warn ''Missing instance ID, this is likely due to a failure during machine creation'') None
      else andThen (request (TerminateInstances (InstanceId d)) (terminate_instances w (InstanceId d))) (\<lambda>r.
        case r of
          Some err \<Rightarrow>
            if HasPrefix (err_text err) ''unknown instance''
               \<or> HasPrefix (err_text err) ''InvalidInstanceID.NotFound''
            then request (Warn ''Remote instance does not exist, proceeding with removing local reference'') None
            else ret (Some (UnableToTerminate err))
        | None \<Rightarrow> ret None))"

definition deleteKeyPair :: "ec2 \<Rightarrow> amazonec2_Driver \<Rightarrow> ec2error option run" where
  "deleteKeyPair w d =
     (if KeyName d = '''' then
        request (Warn ''Missing key pair name, this is likely due to a failure during machine creation'') None
      else andThen (request (DeleteKeyPair (KeyName d)) (delete_key_pair w (KeyName d))) (\<lambda>r.
        case r of
          Some err \<Rightarrow> ret (Some (Api err))
        | None \<Rightarrow> ret None))"

definition amazonec2_Remove :: "ec2 \<Rightarrow> amazonec2_Driver \<Rightarrow> ec2error option run" where
  "amazonec2_Remove w d =
     andThen (terminate w d) (\<lambda>e1.
       andThen (if \<not> ExistingKey d then deleteKeyPair w d else ret None) (\<lambda>e2.
         (let errs = (case e1 of Some err \<Rightarrow> [err] | None \<Rightarrow> [])
                     @ (case e2 of Some err \<Rightarrow> [err] | None \<Rightarrow> [])
          in if length errs = 0 then ret None else ret (Some (MultiError errs)))))"

subsection \<open>Security groups\<close>

text \<open>The keys of the map \<open>hasPorts\<close>: the permissions without a \<open>FromPort\<close> give none.\<close>

definition hasPorts :: "SecurityGroup \<Rightarrow> string list" where
  "hasPorts grp =
     concat (map (\<lambda>p. case FromPort p of
                         None \<Rightarrow> []
                       | Some n \<Rightarrow> [Sprint_d n @ ''/'' @ IpProtocol p])
                 (IpPermissions grp))"

definition port_permission :: "string \<Rightarrow> int \<Rightarrow> IpPermission" where
  "port_permission protocol n =
     \<lparr> IpProtocol = protocol, FromPort = Some n, ToPort = Some n, IpRanges = [ipRange] \<rparr>"

fun open_ports_loop ::
  "(string \<Rightarrow> string \<times> string) \<Rightarrow> string list \<Rightarrow> string list \<Rightarrow> IpPermission list
     \<Rightarrow> ec2error + IpPermission list" where
  "open_ports_loop split keys [] perms = Inr perms"
| "open_ports_loop split keys (p # ps) perms =
     (case split p of
        (port, protocol) \<Rightarrow>
          (case ParseInt port of
             None \<Rightarrow> Inl (InvalidPortNumber port)
           | Some portNum \<Rightarrow>
               if port @ ''/'' @ protocol \<notin> set keys
               then open_ports_loop split keys ps (perms @ [port_permission protocol portNum])
               else open_ports_loop split keys ps perms))"

definition configureSecurityGroupPermissions ::
  "ec2 \<Rightarrow> amazonec2_Driver \<Rightarrow> SecurityGroup \<Rightarrow> ec2error + IpPermission list" where
  "configureSecurityGroupPermissions w d grp =
     (if SecurityGroupReadOnly d then Inr []
      else
        (let keys = hasPorts grp;
             perms1 = (if Sprint_d (SSHPort d) @ ''/tcp'' \<notin> set keys
                       then [port_permission ''tcp'' (SSHPort d)] else []);
             perms2 = perms1 @ (if Sprint_d amazonec2_dockerPort @ ''/tcp'' \<notin> set keys
                                then [port_permission ''tcp'' amazonec2_dockerPort] else []);
             perms3 = perms2 @ (if Sprint_d swarmPort @ ''/tcp'' \<notin> set keys \<and> SwarmMaster d
                                then [port_permission ''tcp'' swarmPort] else [])
         in open_ports_loop (ec2_SplitPortProto w) keys (OpenPorts d) perms3))"

definition securityGroupAvailable :: "ec2 \<Rightarrow> string \<Rightarrow> amazonec2_Driver \<Rightarrow> (bool \<times> amazonec2_Driver) run" where
  "securityGroupAvailable w gid d =
     andThen (request (DescribeSecurityGroupsById gid) (describe_security_groups_by_id w gid)) (\<lambda>r.
       case r of
         Inr n \<Rightarrow> ret (0 < n, d)
       | Inl err \<Rightarrow> ret (False, d))"

text \<open>The map \<open>groupsByName\<close>: a later group of the answer replaces an earlier one of the same name.\<close>

definition groupsByName :: "SecurityGroup list \<Rightarrow> string \<Rightarrow> SecurityGroup option" where
  "groupsByName groups = map_of (rev (map (\<lambda>g. (GroupName g, g)) groups))"

text \<open>One turn of the loop over the grp names.\<close>

definition configure_group ::
  "ec2 \<Rightarrow> SecurityGroup list \<Rightarrow> string \<Rightarrow> amazonec2_Driver
     \<Rightarrow> (ec2error option \<times> amazonec2_Driver) run" where
  "configure_group w groups groupName d =
     andThen
       (case groupsByName groups groupName of
          Some securityGroup \<Rightarrow> ret (Inr securityGroup)
        | None \<Rightarrow>
            andThen (request (CreateSecurityGroup groupName (VpcId d))
                             (create_security_group w groupName (VpcId d))) (\<lambda>r.
              case r of
                Inl err \<Rightarrow> ret (Inl (Api err))
              | Inr gid \<Rightarrow>
                  andThen (WaitFor w (securityGroupAvailable w gid) d) (\<lambda>(e, d0).
                    case e of
                      Some err \<Rightarrow> ret (Inl err)
                    | None \<Rightarrow>
                        ret (Inr \<lparr> GroupId = gid, GroupName = groupName,
                                   sg_VpcId = VpcId d, IpPermissions = [] \<rparr>))))
       (\<lambda>r. case r of
          Inl err \<Rightarrow> ret (Some err, d)
        | Inr grp \<Rightarrow>
            (let d' = d \<lparr> SecurityGroupIds := SecurityGroupIds d @ [GroupId grp] \<rparr>
             in case configureSecurityGroupPermissions w d' grp of
                  Inl err \<Rightarrow> ret (Some err, d')
                | Inr perms \<Rightarrow>
                    if length perms \<noteq> 0 then
                      andThen (request (AuthorizeSecurityGroupIngress (GroupId grp) perms)
                                       (authorize_security_group_ingress w (GroupId grp) perms)) (\<lambda>e.
                        case e of
                          Some err \<Rightarrow> ret (Some (Api err), d')
                        | None \<Rightarrow> ret (None, d'))
                    else ret (None, d')))"

fun configure_groups ::
  "ec2 \<Rightarrow> SecurityGroup list \<Rightarrow> string list \<Rightarrow> amazonec2_Driver
     \<Rightarrow> (ec2error option \<times> amazonec2_Driver) run" where
  "configure_groups w groups [] d = ret (None, d)"
| "configure_groups w groups (groupName # names) d =
     andThen (configure_group w groups groupName d) (\<lambda>(e, d').
       case e of
         Some err \<Rightarrow> ret (Some err, d')
       | None \<Rightarrow> configure_groups w groups names d')"

definition configureSecurityGroups ::
  "ec2 \<Rightarrow> amazonec2_Driver \<Rightarrow> string list \<Rightarrow> (ec2error option \<times> amazonec2_Driver) run" where
  "configureSecurityGroups w d groupNames =
     (if length groupNames = 0 then ret (None, d)
      else andThen (request (DescribeSecurityGroups groupNames (VpcId d))
                            (describe_security_groups w groupNames (VpcId d))) (\<lambda>r.
        case r of
          Inl err \<Rightarrow> ret (Some (Api err), d)
        | Inr groups \<Rightarrow> configure_groups w groups groupNames d))"

subsection \<open>Creation\<close>

definition checkPrereqs :: "ec2 \<Rightarrow> amazonec2_Driver \<Rightarrow> (ec2error option \<times> amazonec2_Driver) run" where
  "checkPrereqs w d =
     (let keyShouldExist = (KeyName d \<noteq> '''');
          keyName = (if KeyName d = '''' then MachineName d else KeyName d)
      in andThen (request (DescribeKeyPairs keyName) (describe_key_pairs w keyName)) (\<lambda>key.
           case (case key of
                   Inl err \<Rightarrow>
                     (case aws_code err of
                        Some code \<Rightarrow>
                          if code = keypairNotFoundCode \<and> keyShouldExist
                          then Some (NoKeypairWithName keyName) else None
                      | None \<Rightarrow> Some (Api err))
                 | Inr n \<Rightarrow>
                     if n \<noteq> 0 \<and> \<not> keyShouldExist
                     then Some (KeypairAlreadyExists (MachineName d)) else None) of
             Some err \<Rightarrow> ret (Some err, d)
           | None \<Rightarrow>
               if SubnetId d = '''' then
                 andThen (request (DescribeSubnets (getRegionZone d) (VpcId d))
                                  (describe_subnets w (getRegionZone d) (VpcId d))) (\<lambda>r.
                   case r of
                     Inl err \<Rightarrow> ret (Some (Api err), d)
                   | Inr subnets \<Rightarrow>
                       (case subnets of
                          [] \<Rightarrow> ret (Some (NoSubnetFound (getRegionZone d) (VpcId d)), d)
                        | first # others \<Rightarrow>
                            (let d1 = d \<lparr> SubnetId := sn_SubnetId first \<rparr>
                             in if 1 < length subnets then
                                  (case find (\<lambda>s. DefaultForAz s = Some True) subnets of
                                     Some s \<Rightarrow> ret (None, d1 \<lparr> SubnetId := sn_SubnetId s \<rparr>)
                                   | None \<Rightarrow> ret (None, d1))
                                else ret (None, d1))))
               else ret (None, d)))"

definition createKeyPair :: "ec2 \<Rightarrow> amazonec2_Driver \<Rightarrow> (ec2error option \<times> amazonec2_Driver) run" where
  "createKeyPair w d =
     (case (if SSHPrivateKeyPath d = '''' then
              (case fs_generate_ssh_key w of Some err \<Rightarrow> Inl (Some (Api err)) | None \<Rightarrow> Inr ())
            else
              (case fs_copy_private_key w of
                 Some err \<Rightarrow> Inl (Some (Api err))
               | None \<Rightarrow>
                   (case fs_copy_public_key w of
                      Some err \<Rightarrow> Inl (Some (Api err))
                    | None \<Rightarrow> if KeyName d \<noteq> '''' then Inl None else Inr ()))) of
        Inl result \<Rightarrow> ret (result, d)
      | Inr u \<Rightarrow>
          (case fs_read_public_key w of
             Inl err \<Rightarrow> ret (Some (Api err), d)
           | Inr publicKey \<Rightarrow>
               andThen (request (ImportKeyPair (MachineName d)) (import_key_pair w (MachineName d))) (\<lambda>e.
                 case e of
                   Some err \<Rightarrow> ret (Some (Api err), d)
                 | None \<Rightarrow> ret (None, d \<lparr> KeyName := MachineName d \<rparr>))))"

definition Base64UserData :: "ec2 \<Rightarrow> amazonec2_Driver \<Rightarrow> (ec2error + string) run" where
  "Base64UserData w d =
     (if UserDataFile d \<noteq> '''' then
        (case fs_read_user_data w of
           Inl ioerr \<Rightarrow>
             request (Warn (''failed to read user data file '' @ UserDataFile d)) (Inl ErrorReadingUserData)
         | Inr buf \<Rightarrow> ret (Inr (base64 w buf)))
      else ret (Inr ''''))"

text \<open>\<open>createTags\<close>: the name tag, then the comma separated tags taken two by two.\<close>

fun tag_pairs :: "string list \<Rightarrow> (string \<times> string) list" where
  "tag_pairs (k # v # t) = (k, v) # tag_pairs t"
| "tag_pairs t = []"

definition createTags :: "amazonec2_Driver \<Rightarrow> (string \<times> string) list run" where
  "createTags d =
     (let tags = [(''Name'', MachineName d)]
      in if Tags d \<noteq> '''' then
           (let t = Split (Tags d) CHR '',''
            in andThen
                 (if 0 < length t \<and> length t mod 2 \<noteq> 0
                  then request (Warn ''Tags are not key value in pairs.'') ()
                  else ret ())
                 (\<lambda>u. ret (tags @ tag_pairs t)))
         else ret tags)"

definition createTagSpecifications ::
  "amazonec2_Driver \<Rightarrow> (string \<times> (string \<times> string) list) list run" where
  "createTagSpecifications d =
     andThen (createTags d) (\<lambda>tags.
       ret [(''instance'', tags), (''volume'', tags), (''network-interface'', tags)])"

text \<open>
  The loop that tags a spot instance, ten tags for each request: its body runs
  before the test, so a first request is sent in any case.
\<close>

fun batches :: "'a list \<Rightarrow> 'a list list" where
  "batches tags =
     (if length (drop 10 tags) = 0 then [take 10 tags]
      else take 10 tags # batches (drop 10 tags))"

declare batches.simps [simp del]

fun send_batches :: "ec2 \<Rightarrow> string \<Rightarrow> (string \<times> string) list list \<Rightarrow> ec2error option run" where
  "send_batches w iid [] = ret None"
| "send_batches w iid (t # ts) =
     andThen (request (CreateTags iid t) (create_tags w iid t)) (\<lambda>e.
       case e of
         Some err \<Rightarrow> ret (Some (ErrorSettingTags (Api err)))
       | None \<Rightarrow> send_batches w iid ts)"

text \<open>
  \<open>innerCreate\<close>. The error of the last wait, \<open>d.waitForInstance()\<close>, is dropped
  by the source.
\<close>

definition innerCreate :: "ec2 \<Rightarrow> amazonec2_Driver \<Rightarrow> (ec2error option \<times> amazonec2_Driver) run" where
  "innerCreate w d =
     andThen (createKeyPair w d) (\<lambda>(e1, d1).
       case e1 of
         Some err \<Rightarrow> ret (Some (UnableToCreateKeyPair err), d1)
       | None \<Rightarrow>
           andThen (configureSecurityGroups w d1 (securityGroupNames d1)) (\<lambda>(e2, d2).
             case e2 of
               Some err \<Rightarrow> ret (Some err, d2)
             | None \<Rightarrow>
                 andThen (Base64UserData w d2) (\<lambda>b64.
                   case b64 of
                     Inl err \<Rightarrow> ret (Some err, d2)
                   | Inr userdata \<Rightarrow>
                       andThen (if RequestSpotInstance d2 then ret [] else createTagSpecifications d2) (\<lambda>specs.
                         (let req = \<lparr> ri_KeyName = KeyName d2,
                                      ri_Groups = securityGroupIds d2,
                                      ri_UserData = userdata,
                                      ri_spot = RequestSpotInstance d2,
                                      ri_TagSpecifications = specs \<rparr>
                          in andThen (request (RunInstances req) (run_instances w req)) (\<lambda>inst.
                               case inst of
                                 Inl err \<Rightarrow> ret (Some (ErrorLaunchingInstance (Api err)), d2)
                               | Inr None \<Rightarrow> ret (Some ErrorUnprocessableLaunch, d2)
                               | Inr (Some []) \<Rightarrow> ret (Some ErrorUnprocessableLaunch, d2)
                               | Inr (Some (i # others)) \<Rightarrow>
                                   (let d3 = d2 \<lparr> InstanceId := inst_InstanceId i \<rparr>
                                    in andThen
                                         (if RequestSpotInstance d3 \<and> InstanceId d3 \<noteq> '''' then
                                            andThen (createTags d3) (\<lambda>tags.
                                              send_batches w (inst_InstanceId i) (batches tags))
                                          else ret None)
                                         (\<lambda>e3. case e3 of
                                            Some err \<Rightarrow> ret (Some err, d3)
                                          | None \<Rightarrow>
                                              andThen (WaitFor w (instanceIpAvailable w) d3) (\<lambda>(e4, d4).
                                                case e4 of
                                                  Some err \<Rightarrow> ret (Some err, d4)
                                                | None \<Rightarrow>
                                                    (let d5 = (case PrivateIpAddress i of
                                                                 Some a \<Rightarrow> d4 \<lparr> PrivateIPAddress := a \<rparr>
                                                               | None \<Rightarrow> d4)
                                                     in andThen (waitForInstance w d5) (\<lambda>(e5, d6).
                                                          ret (None, d6))))))))))))"

definition amazonec2_Create :: "ec2 \<Rightarrow> amazonec2_Driver \<Rightarrow> (ec2error option \<times> amazonec2_Driver) run" where
  "amazonec2_Create w d =
     andThen (checkPrereqs w d) (\<lambda>(e0, d0).
       case e0 of
         Some err \<Rightarrow> ret (Some err, d0)
       | None \<Rightarrow>
           andThen (innerCreate w d0) (\<lambda>(e1, d1).
             case e1 of
               Some err \<Rightarrow> andThen (amazonec2_Remove w d1) (\<lambda>removed. ret (Some err, d1))
             | None \<Rightarrow> ret (None, d1)))"

subsection \<open>An amazonec2 driver and an environment for the examples\<close>

text \<open>
  A machine \<open>vm\<close> whose instance \<open>i-0abc\<close> runs with a public address, in an
  environment in which every request succeeds; the security group
  \<open>docker-machine\<close> exists and has no permission yet.
\<close>

definition example_ec2_instance :: ec2_instance where
  "example_ec2_instance =
     \<lparr> inst_InstanceId = ''i-0abc'', State_Name = ''running'',
       PublicIpAddress = Some ''198.51.100.4'', PrivateIpAddress = Some ''172.31.0.5'' \<rparr>"

definition example_group :: SecurityGroup where
  "example_group =
     \<lparr> GroupId = ''sg-1'', GroupName = ''docker-machine'', sg_VpcId = ''vpc-1'',
       IpPermissions = [] \<rparr>"

definition example_ec2 :: ec2 where
  "example_ec2 =
     \<lparr> describe_key_pairs = (\<lambda>name. Inr 0),
       describe_subnets = (\<lambda>z v. Inr [\<lparr> sn_SubnetId = ''subnet-1'', DefaultForAz = Some True \<rparr>]),
       import_key_pair = (\<lambda>name. None),
       delete_key_pair = (\<lambda>name. None),
       describe_security_groups = (\<lambda>names vpc. Inr [example_group]),
       describe_security_groups_by_id = (\<lambda>gid. Inr 1),
       create_security_group = (\<lambda>name vpc. Inr ''sg-2''),
       authorize_security_group_ingress = (\<lambda>gid perms. None),
       run_instances = (\<lambda>req. Inr (Some [example_ec2_instance])),
       create_tags = (\<lambda>iid tags. None),
       describe_instances = (\<lambda>iid. Inr (Some [[example_ec2_instance]])),
       terminate_instances = (\<lambda>iid. None),
       fs_generate_ssh_key = None,
       fs_copy_private_key = None,
       fs_copy_public_key = None,
       fs_read_public_key = Inr ''ssh-rsa AAAA'',
       fs_read_user_data = Inr '''',
       base64 = (\<lambda>s. s),
       ec2_SplitPortProto = split_at_slash,
       max_attempts = 3 \<rparr>"

definition example_ec2_Driver :: amazonec2_Driver where
  "example_ec2_Driver =
     \<lparr> MachineName = ''vm'', IPAddress = '''', SSHPort = 22, SwarmMaster = False,
       ExistingKey = False, KeyName = ''vm'', InstanceId = ''i-0abc'',
       PrivateIPAddress = '''',
       SecurityGroupId = '''', SecurityGroupIds = [],
       SecurityGroupName = '''', SecurityGroupNames = [''docker-machine''],
       SecurityGroupReadOnly = False, OpenPorts = [], Tags = '''',
       VpcId = ''vpc-1'', SubnetId = ''subnet-1'', Region = ''us-east-1'', Zone = ''a'',
       Endpoint = '''', RequestSpotInstance = False,
       PrivateIPOnly = False, UsePrivateIP = False,
       SSHPrivateKeyPath = '''', UserDataFile = '''' \<rparr>"

text \<open>An answer of the client with an error code, as \<open>awserr\<close> prints it.\<close>

definition aws_error :: "string \<Rightarrow> string \<Rightarrow> apierror" where
  "aws_error code message = \<lparr> aws_code = Some code, err_text = code @ '': '' @ message \<rparr>"

definition ec2_with_instance :: "ec2_instance \<Rightarrow> ec2" where
  "ec2_with_instance inst =
     example_ec2 \<lparr> describe_instances := (\<lambda>iid. Inr (Some [[inst]])) \<rparr>"

definition ec2_without_key_pair :: ec2 where
  "ec2_without_key_pair =
     example_ec2 \<lparr> delete_key_pair :=
       (\<lambda>name. Some (aws_error ''InvalidKeyPair.NotFound'' ''The key pair does not exist'')) \<rparr>"

definition ec2_failing_teardown :: ec2 where
  "ec2_failing_teardown =
     example_ec2 \<lparr> terminate_instances :=
                     (\<lambda>iid. Some (aws_error ''UnauthorizedOperation'' ''not authorized'')),
                   delete_key_pair :=
                     (\<lambda>name. Some (aws_error ''RequestLimitExceeded'' ''slow down'')) \<rparr>"

text \<open>The driver before creation: no instance and no key pair are recorded yet.\<close>

definition new_ec2_Driver :: amazonec2_Driver where
  "new_ec2_Driver = example_ec2_Driver \<lparr> InstanceId := '''', KeyName := '''' \<rparr>"

definition ec2_refusing_launch :: ec2 where
  "ec2_refusing_launch =
     example_ec2 \<lparr> run_instances :=
       (\<lambda>req. Inl (aws_error ''InstanceLimitExceeded'' ''too many instances'')) \<rparr>"

section \<open>Notions used to state the claims\<close>

subsection \<open>The operation poller\<close>

text \<open>
  \<open>pending_before opGetter NextBackOff k\<close>: each of the first \<open>k\<close> fetches
  succeeds and reports an operation that is not done, and each of the first
  \<open>k\<close> answers of \<open>NextBackOff\<close> is a duration and not \<open>backoff.Stop\<close>. Then the
  loop reaches its \<open>k\<close>-th iteration, after the effects \<open>polls fetch NextBackOff k\<close>.
\<close>

fun pending_before :: "(nat \<Rightarrow> goerror + operation) \<Rightarrow> (nat \<Rightarrow> int) \<Rightarrow> nat \<Rightarrow> bool" where
  "pending_before opGetter NextBackOff 0 = True"
| "pending_before opGetter NextBackOff (Suc k) =
     (pending_before opGetter NextBackOff k
      \<and> (case opGetter k of Inl err \<Rightarrow> False | Inr op \<Rightarrow> op_status op \<noteq> ''DONE'')
      \<and> NextBackOff k \<noteq> backoff_Stop)"

fun polls :: "effect \<Rightarrow> (nat \<Rightarrow> int) \<Rightarrow> nat \<Rightarrow> effect list" where
  "polls fetch NextBackOff 0 = []"
| "polls fetch NextBackOff (Suc k) = polls fetch NextBackOff k @ [fetch, Sleep (NextBackOff k)]"

subsection \<open>Effects that a run never has\<close>

text \<open>\<open>never P m\<close>: when the run \<open>m\<close> ends, none of its effects satisfies \<open>P\<close>.\<close>

definition never :: "(effect \<Rightarrow> bool) \<Rightarrow> 'a run \<Rightarrow> bool" where
  "never P m = (case m of None \<Rightarrow> True | Some (r, es) \<Rightarrow> list_all (\<lambda>e. \<not> P e) es)"

subsection \<open>The derivation table of the spec\<close>

text \<open>
  The table of section 4.2 of the spec, in its words. The first argument is
  the provider status of the instance, \<open>None\<close> when the instance is absent;
  the second says whether the volume is present. The result is the canonical
  state and whether a warning is logged. The names of the spec are compared
  with the provider status without regard to the case of the letters.
\<close>

definition lower_case :: "string \<Rightarrow> string" where
  "lower_case s =
     map (\<lambda>ch. if 65 \<le> (of_char ch :: nat) \<and> (of_char ch :: nat) \<le> 90
                then char_of ((of_char ch :: nat) + 32) else ch) s"

definition derivation_table :: "string option \<Rightarrow> bool \<Rightarrow> State \<times> bool" where
  "derivation_table status volume =
     (case status of
        None \<Rightarrow> if volume then (Stopped, False) else (NoneState, False)
      | Some s \<Rightarrow>
          if lower_case s \<in> set [''provisioning'', ''staging'', ''pending''] then (Starting, False)
          else if lower_case s = ''running'' then (Running, False)
          else if lower_case s \<in> set [''stopping'', ''shutting-down''] then (Stopping, False)
          else if lower_case s \<in> set [''stopped'', ''terminated''] then (Stopped, False)
          else (Error, True))"

subsection \<open>The requests of a teardown\<close>

text \<open>The requests by which the \<open>Remove\<close> of either driver deletes a resource.\<close>

fun teardown_request :: "effect \<Rightarrow> bool" where
  "teardown_request InstancesDelete = True"
| "teardown_request DisksDelete = True"
| "teardown_request (TerminateInstances i) = True"
| "teardown_request (DeleteKeyPair n) = True"
| "teardown_request _ = False"

subsection \<open>Desired rules\<close>

text \<open>
  The key \<open>port/protocol\<close> under which both drivers look a parsed open port up
  among the rules that exist.
\<close>

definition port_key :: "(string \<Rightarrow> string \<times> string) \<Rightarrow> string \<Rightarrow> string" where
  "port_key split p = (case split p of (port, proto) \<Rightarrow> port @ ''/'' @ proto)"

text \<open>The permissions for the open ports of the user whose number parses.\<close>

definition user_permissions :: "(string \<Rightarrow> string \<times> string) \<Rightarrow> string list \<Rightarrow> IpPermission list" where
  "user_permissions split ps =
     concat (map (\<lambda>p. case split p of
                         (port, protocol) \<Rightarrow>
                           (case ParseInt port of
                              None \<Rightarrow> []
                            | Some n \<Rightarrow> [port_permission protocol n]))
                 ps)"

text \<open>
  The desired rule set in the words of the spec, for the amazonec2 driver: the
  control port, the cluster port when the host is a swarm master, and the
  parsed open ports of the user.
\<close>

definition spec_desired_permissions :: "ec2 \<Rightarrow> amazonec2_Driver \<Rightarrow> IpPermission list" where
  "spec_desired_permissions a e =
     [port_permission ''tcp'' amazonec2_dockerPort]
     @ (if SwarmMaster e then [port_permission ''tcp'' swarmPort] else [])
     @ user_permissions (ec2_SplitPortProto a) (OpenPorts e)"

text \<open>
  An open port is written canonically when its number parses and is printed
  back as the same text (no sign, no leading zero).
\<close>

definition canonical_port :: "(string \<Rightarrow> string \<times> string) \<Rightarrow> string \<Rightarrow> bool" where
  "canonical_port split p =
     (case split p of
        (port, protocol) \<Rightarrow>
          (case ParseInt port of None \<Rightarrow> False | Some n \<Rightarrow> Sprint_d n = port))"

text \<open>The keys that \<open>configureSecurityGroupPermissions\<close> looks up among the keys of the group.\<close>

definition desired_keys :: "ec2 \<Rightarrow> amazonec2_Driver \<Rightarrow> string list" where
  "desired_keys a e =
     [Sprint_d (SSHPort e) @ ''/tcp'', Sprint_d amazonec2_dockerPort @ ''/tcp'']
     @ (if SwarmMaster e then [Sprint_d swarmPort @ ''/tcp''] else [])
     @ map (port_key (ec2_SplitPortProto a)) (OpenPorts e)"

section \<open>The claims\<close>

subsection \<open>Runs and the loop of the poller\<close>

lemma andThen_ret [simp]: "andThen (ret a) f = f a"
  by (auto simp: andThen_def ret_def split: option.splits prod.splits)

lemma andThen_panic [simp]: "andThen (panic_run p) f = panic_run p"
  by (simp add: andThen_def panic_run_def)

lemma andThen_request:
  "andThen (request e a) f = (case f a of None \<Rightarrow> None | Some (r, es) \<Rightarrow> Some (r, e # es))"
  by (simp add: andThen_def request_def split: option.splits prod.splits)

text \<open>The rules by which a run on given answers is computed.\<close>

lemma andThen_Returned:
  "andThen (Some (Returned a, es)) f =
     (case f a of None \<Rightarrow> None | Some (r, es') \<Rightarrow> Some (r, es @ es'))"
  by (simp add: andThen_def)

lemma andThen_Panicked: "andThen (Some (Panicked p, es)) f = Some (Panicked p, es)"
  by (simp add: andThen_def)

lemma andThen_None: "andThen None f = None"
  by (simp add: andThen_def)

lemmas run_simps =
  ret_def request_def panic_run_def andThen_Returned andThen_Panicked andThen_None

lemma waitLoop_pending:
  "opGetter i = Inr op \<Longrightarrow> op_status op \<noteq> ''DONE'' \<Longrightarrow> nbo i \<noteq> backoff_Stop \<Longrightarrow>
   waitLoop opGetter fetch nbo i sofar
     = waitLoop opGetter fetch nbo (Suc i) (sofar @ [fetch, Sleep (nbo i)])"
  by (subst waitLoop.simps) simp

lemma waitLoop_reaches:
  "pending_before opGetter nbo k \<Longrightarrow>
   waitLoop opGetter fetch nbo 0 [] = waitLoop opGetter fetch nbo k (polls fetch nbo k)"
proof (induction k)
  case 0
  show ?case by simp
next
  case (Suc k)
  from Suc.prems obtain op where
    p: "pending_before opGetter nbo k" and
    g: "opGetter k = Inr op" "op_status op \<noteq> ''DONE''" and
    n: "nbo k \<noteq> backoff_Stop"
    by (auto split: sum.splits)
  have "waitLoop opGetter fetch nbo 0 [] = waitLoop opGetter fetch nbo k (polls fetch nbo k)"
    using Suc.IH p by simp
  also have "\<dots> = waitLoop opGetter fetch nbo (Suc k) (polls fetch nbo k @ [fetch, Sleep (nbo k)])"
    using g n by (rule waitLoop_pending)
  finally show ?case by simp
qed

text \<open>What the loop does at an iteration that ends it.\<close>

lemma waitLoop_done:
  "opGetter i = Inr op \<Longrightarrow> op_status op = ''DONE'' \<Longrightarrow> op_error op = None \<Longrightarrow>
   waitLoop opGetter fetch nbo i sofar = Some (Returned None, sofar @ [fetch])"
  by (subst waitLoop.simps) simp

lemma waitLoop_failed:
  "opGetter i = Inr op \<Longrightarrow> op_status op = ''DONE'' \<Longrightarrow> op_error op = Some (e # rest) \<Longrightarrow>
   waitLoop opGetter fetch nbo i sofar = Some (Returned (Some (OperationFailed e)), sofar @ [fetch])"
  by (subst waitLoop.simps) simp

lemma waitLoop_elapsed:
  "opGetter i = Inr op \<Longrightarrow> op_status op \<noteq> ''DONE'' \<Longrightarrow> nbo i = backoff_Stop \<Longrightarrow>
   waitLoop opGetter fetch nbo i sofar = Some (Returned (Some BackoffElapsed), sofar @ [fetch])"
  by (subst waitLoop.simps) simp

text \<open>A run of the loop that ends in success has met an operation that is done without an error.\<close>

lemma waitLoop_success_only_if:
  assumes "waitLoop opGetter fetch nbo i sofar = Some y"
  shows "fst y = Returned None \<longrightarrow>
   (\<exists>k op. (\<forall>j<k. (case opGetter (i + j) of Inl err \<Rightarrow> False | Inr op \<Rightarrow> op_status op \<noteq> ''DONE'')
                  \<and> nbo (i + j) \<noteq> backoff_Stop)
         \<and> opGetter (i + k) = Inr op \<and> op_status op = ''DONE'' \<and> op_error op = None)"
proof (rule waitLoop.raw_induct
    [where P = "\<lambda>g f n i s y. fst y = Returned None \<longrightarrow>
       (\<exists>k op. (\<forall>j<k. (case g (i + j) of Inl err \<Rightarrow> False | Inr op \<Rightarrow> op_status op \<noteq> ''DONE'')
                  \<and> n (i + j) \<noteq> backoff_Stop)
         \<and> g (i + k) = Inr op \<and> op_status op = ''DONE'' \<and> op_error op = None)",
     OF _ assms], goal_cases)
  case (1 loop opGetter fetch nbo i sofar y)
  show ?case
  proof
    assume ok: "fst y = Returned None"
    show "\<exists>k op. (\<forall>j<k. (case opGetter (i + j) of Inl err \<Rightarrow> False | Inr op \<Rightarrow> op_status op \<noteq> ''DONE'')
                  \<and> nbo (i + j) \<noteq> backoff_Stop)
         \<and> opGetter (i + k) = Inr op \<and> op_status op = ''DONE'' \<and> op_error op = None"
    proof (cases "opGetter i")
      case (Inl err)
      with 1(2) ok show ?thesis by auto
    next
      case (Inr op)
      show ?thesis
      proof (cases "op_status op = ''DONE''")
        case True
        with Inr 1(2) ok have "op_error op = None"
          by (auto split: option.splits list.splits)
        with Inr True have
          "(\<forall>j<(0::nat). (case opGetter (i + j) of Inl err \<Rightarrow> False | Inr op \<Rightarrow> op_status op \<noteq> ''DONE'')
                  \<and> nbo (i + j) \<noteq> backoff_Stop)
           \<and> opGetter (i + 0) = Inr op \<and> op_status op = ''DONE'' \<and> op_error op = None"
          by simp
        then show ?thesis by blast
      next
        case False
        show ?thesis
        proof (cases "nbo i = backoff_Stop")
          case True
          with Inr False 1(2) ok show ?thesis by auto
        next
          case nstop: False
          with Inr False 1(2) have
            "loop opGetter fetch nbo (Suc i) (sofar @ [fetch, Sleep (nbo i)]) = Some y"
            by simp
          from 1(1)[OF this] ok obtain k op' where
            k: "\<forall>j<k. (case opGetter (Suc i + j) of Inl err \<Rightarrow> False | Inr op \<Rightarrow> op_status op \<noteq> ''DONE'')
                    \<and> nbo (Suc i + j) \<noteq> backoff_Stop"
            and d: "opGetter (Suc i + k) = Inr op'" "op_status op' = ''DONE''" "op_error op' = None"
            by blast
          have "\<forall>j<Suc k. (case opGetter (i + j) of Inl err \<Rightarrow> False | Inr op \<Rightarrow> op_status op \<noteq> ''DONE'')
                    \<and> nbo (i + j) \<noteq> backoff_Stop"
          proof (intro allI impI)
            fix j assume "j < Suc k"
            show "(case opGetter (i + j) of Inl err \<Rightarrow> False | Inr op \<Rightarrow> op_status op \<noteq> ''DONE'')
                    \<and> nbo (i + j) \<noteq> backoff_Stop"
            proof (cases j)
              case 0
              with Inr False nstop show ?thesis by simp
            next
              case (Suc j')
              with \<open>j < Suc k\<close> have "j' < k" by simp
              with k Suc show ?thesis by simp
            qed
          qed
          moreover have "opGetter (i + Suc k) = Inr op'" using d(1) by simp
          ultimately show ?thesis using d(2,3) by blast
        qed
      qed
    qed
  qed
qed

lemma pending_before_iff:
  "pending_before opGetter nbo k \<longleftrightarrow>
   (\<forall>j<k. (case opGetter j of Inl err \<Rightarrow> False | Inr op \<Rightarrow> op_status op \<noteq> ''DONE'')
           \<and> nbo j \<noteq> backoff_Stop)"
  by (induction k) (auto simp: less_Suc_eq)

subsection \<open>Effects that a run never has\<close>

lemma never_ret: "never P (ret a)"
  by (simp add: never_def ret_def)

lemma never_panic_run: "never P (panic_run p)"
  by (simp add: never_def panic_run_def)

lemma never_request: "\<not> P e \<Longrightarrow> never P (request e a)"
  by (simp add: never_def request_def)

lemma never_andThen: "never P m \<Longrightarrow> (\<And>a. never P (f a)) \<Longrightarrow> never P (andThen m f)"
proof -
  assume m: "never P m" and f: "\<And>a. never P (f a)"
  show ?thesis
  proof (cases m)
    case None
    then show ?thesis by (simp add: andThen_def never_def)
  next
    case (Some x)
    obtain r es where x: "x = (r, es)" by (cases x)
    show ?thesis
    proof (cases r)
      case (Panicked p)
      with Some x m show ?thesis by (simp add: andThen_def never_def)
    next
      case (Returned a)
      with Some x m f [of a] show ?thesis
        by (cases "f a") (auto simp: andThen_def never_def)
    qed
  qed
qed

lemma never_effects: "never P m \<Longrightarrow> m = Some (r, es) \<Longrightarrow> list_all (\<lambda>e. \<not> P e) es"
  by (simp add: never_def)

text \<open>The loop of the poller only fetches and sleeps.\<close>

lemma waitLoop_effects:
  assumes "waitLoop opGetter fetch nbo i sofar = Some y"
  shows "\<not> P fetch \<longrightarrow> (\<forall>n. \<not> P (Sleep n)) \<longrightarrow> list_all (\<lambda>e. \<not> P e) sofar \<longrightarrow>
         list_all (\<lambda>e. \<not> P e) (snd y)"
proof (rule waitLoop.raw_induct
    [where P = "\<lambda>g f n i s y. \<not> P f \<longrightarrow> (\<forall>n. \<not> P (Sleep n)) \<longrightarrow> list_all (\<lambda>e. \<not> P e) s \<longrightarrow>
                  list_all (\<lambda>e. \<not> P e) (snd y)",
     OF _ assms], goal_cases)
  case (1 loop opGetter fetch nbo i sofar y)
  show ?case
  proof (intro impI)
    assume f: "\<not> P fetch" and s: "\<forall>n. \<not> P (Sleep n)" and a: "list_all (\<lambda>e. \<not> P e) sofar"
    show "list_all (\<lambda>e. \<not> P e) (snd y)"
    proof (cases "opGetter i")
      case (Inl err)
      with 1(2) f a show ?thesis by auto
    next
      case (Inr op)
      show ?thesis
      proof (cases "op_status op = ''DONE''")
        case True
        with Inr 1(2) f a show ?thesis
          by (auto split: option.splits list.splits)
      next
        case False
        show ?thesis
        proof (cases "nbo i = backoff_Stop")
          case True
          with Inr False 1(2) f a show ?thesis by auto
        next
          case nstop: False
          with Inr False 1(2) have
            "loop opGetter fetch nbo (Suc i) (sofar @ [fetch, Sleep (nbo i)]) = Some y"
            by simp
          from 1(1) [OF this] f s a show ?thesis by simp
        qed
      qed
    qed
  qed
qed

lemma never_waitForOp:
  "\<not> P fetch \<Longrightarrow> (\<And>n. \<not> P (Sleep n)) \<Longrightarrow> never P (waitForOp create c fetch opGetter)"
proof (cases "operationBackoffFactory c")
  case None
  then show ?thesis by (simp add: waitForOp_def never_ret)
next
  case (Some bf)
  assume f: "\<not> P fetch" and s: "\<And>n. \<not> P (Sleep n)"
  show ?thesis
  proof (cases "waitLoop opGetter fetch (create bf) 0 []")
    case None
    with Some show ?thesis by (simp add: waitForOp_def never_def)
  next
    case inner: (Some y)
    from waitLoop_effects [OF inner, of P] f s have "list_all (\<lambda>e. \<not> P e) (snd y)" by simp
    with Some inner show ?thesis by (cases y) (simp add: waitForOp_def never_def)
  qed
qed

lemma never_waitForRegionalOp:
  "\<not> P (ZoneOperationsWait name) \<Longrightarrow> (\<And>n. \<not> P (Sleep n)) \<Longrightarrow>
   never P (waitForRegionalOp w c name)"
  by (simp add: waitForRegionalOp_def never_waitForOp)

lemma never_waitForGlobalOp:
  "\<not> P (GlobalOperationsWait name) \<Longrightarrow> (\<And>n. \<not> P (Sleep n)) \<Longrightarrow>
   never P (waitForGlobalOp w c name)"
  by (simp add: waitForGlobalOp_def never_waitForOp)

subsection \<open>The operation poller and the region\<close>

text \<open>
  Claim C4. With a backoff factory configured, \<open>waitForOp\<close> returns success
  exactly when the loop reaches a fetch that reports the operation done with no
  embedded error, and this fetch is then the last effect. When the loop
  reaches a fetch that reports the operation done with an embedded error, it
  returns that error (the first entry) and fetches no more. When the operation
  is still not done at a fetch after which \<open>NextBackOff\<close> answers
  \<open>backoff.Stop\<close>, it returns the timeout error.
\<close>

theorem waitForOp_outcomes:
  "operationBackoffFactory c = Some bf \<Longrightarrow>
   ((\<exists>es. waitForOp create c fetch opGetter = Some (Returned None, es)) \<longleftrightarrow>
      (\<exists>k op. pending_before opGetter (create bf) k \<and> opGetter k = Inr op
              \<and> op_status op = ''DONE'' \<and> op_error op = None))
   \<and> (\<forall>k op. pending_before opGetter (create bf) k \<and> opGetter k = Inr op
              \<and> op_status op = ''DONE'' \<and> op_error op = None \<longrightarrow>
         waitForOp create c fetch opGetter
           = Some (Returned None, polls fetch (create bf) k @ [fetch]))
   \<and> (\<forall>k op e rest. pending_before opGetter (create bf) k \<and> opGetter k = Inr op
              \<and> op_status op = ''DONE'' \<and> op_error op = Some (e # rest) \<longrightarrow>
         waitForOp create c fetch opGetter
           = Some (Returned (Some (OperationFailed e)), polls fetch (create bf) k @ [fetch]))
   \<and> (\<forall>k op. pending_before opGetter (create bf) k \<and> opGetter k = Inr op
              \<and> op_status op \<noteq> ''DONE'' \<and> create bf k = backoff_Stop \<longrightarrow>
         waitForOp create c fetch opGetter
           = Some (Returned (Some BackoffElapsed), polls fetch (create bf) k @ [fetch]))"
proof -
  assume bf: "operationBackoffFactory c = Some bf"
  have unfold: "waitForOp create c fetch opGetter = waitLoop opGetter fetch (create bf) 0 []"
    using bf by (simp add: waitForOp_def)
  have reach: "waitForOp create c fetch opGetter
                 = waitLoop opGetter fetch (create bf) k (polls fetch (create bf) k)"
    if "pending_before opGetter (create bf) k" for k
    using that unfold by (simp add: waitLoop_reaches)
  have succeeds: "waitForOp create c fetch opGetter
                    = Some (Returned None, polls fetch (create bf) k @ [fetch])"
    if "pending_before opGetter (create bf) k" "opGetter k = Inr op"
       "op_status op = ''DONE''" "op_error op = None" for k op
    using that by (simp add: reach waitLoop_done)
  have fails: "waitForOp create c fetch opGetter
                 = Some (Returned (Some (OperationFailed e)), polls fetch (create bf) k @ [fetch])"
    if "pending_before opGetter (create bf) k" "opGetter k = Inr op"
       "op_status op = ''DONE''" "op_error op = Some (e # rest)" for k op e rest
    using that by (simp add: reach waitLoop_failed)
  have elapses: "waitForOp create c fetch opGetter
                   = Some (Returned (Some BackoffElapsed), polls fetch (create bf) k @ [fetch])"
    if "pending_before opGetter (create bf) k" "opGetter k = Inr op"
       "op_status op \<noteq> ''DONE''" "create bf k = backoff_Stop" for k op
    using that by (simp add: reach waitLoop_elapsed)
  have only_if: "\<exists>k op. pending_before opGetter (create bf) k \<and> opGetter k = Inr op
                   \<and> op_status op = ''DONE'' \<and> op_error op = None"
    if "waitForOp create c fetch opGetter = Some (Returned None, es)" for es
  proof -
    from that have "waitLoop opGetter fetch (create bf) 0 [] = Some (Returned None, es)"
      by (simp add: unfold)
    from waitLoop_success_only_if [OF this] show ?thesis
      by (simp add: pending_before_iff)
  qed
  show ?thesis
    using succeeds fails elapses only_if by blast
qed

theorem waitForOp_outcomes_witness:
  "waitForOp (\<lambda>bf k. if k < 2 then InitialInterval bf else backoff_Stop) example_util
       (ZoneOperationsWait ''op'')
       (\<lambda>k. Inr (if k < 1 then running_operation ''op'' else done_operation ''op''))
     = Some (Returned None,
             [ZoneOperationsWait ''op'', Sleep 500000000, ZoneOperationsWait ''op''])
   \<and> waitForOp (\<lambda>bf k. if k < 2 then InitialInterval bf else backoff_Stop) example_util
       (ZoneOperationsWait ''op'')
       (\<lambda>k. Inr (if k < 1 then running_operation ''op''
                  else (done_operation ''op'') \<lparr> op_error := Some [quota_exceeded] \<rparr>))
     = Some (Returned (Some (OperationFailed quota_exceeded)),
             [ZoneOperationsWait ''op'', Sleep 500000000, ZoneOperationsWait ''op''])
   \<and> waitForOp (\<lambda>bf k. if k < 2 then InitialInterval bf else backoff_Stop) example_util
       (ZoneOperationsWait ''op'')
       (\<lambda>k. Inr (running_operation ''op''))
     = Some (Returned (Some BackoffElapsed),
             [ZoneOperationsWait ''op'', Sleep 500000000, ZoneOperationsWait ''op'',
              Sleep 500000000, ZoneOperationsWait ''op''])"
proof -
  have bf: "operationBackoffFactory example_util = Some example_factory"
    by (simp add: example_util_def)
  have two: "2 = Suc (Suc 0)" by simp
  note w = waitForOp_outcomes [OF bf,
      where create = "\<lambda>bf k. if k < 2 then InitialInterval bf else backoff_Stop"
        and fetch = "ZoneOperationsWait ''op''"]
  have a: "waitForOp (\<lambda>bf k. if k < 2 then InitialInterval bf else backoff_Stop) example_util
       (ZoneOperationsWait ''op'')
       (\<lambda>k. Inr (if k < 1 then running_operation ''op'' else done_operation ''op''))
     = Some (Returned None,
             [ZoneOperationsWait ''op'', Sleep 500000000, ZoneOperationsWait ''op''])"
    using w [of "\<lambda>k. Inr (if k < 1 then running_operation ''op'' else done_operation ''op'')",
             THEN conjunct2, THEN conjunct1, rule_format, of "Suc 0" "done_operation ''op''"]
    by (simp add: running_operation_def done_operation_def example_factory_def backoff_Stop_def)
  have b: "waitForOp (\<lambda>bf k. if k < 2 then InitialInterval bf else backoff_Stop) example_util
       (ZoneOperationsWait ''op'')
       (\<lambda>k. Inr (if k < 1 then running_operation ''op''
                  else (done_operation ''op'') \<lparr> op_error := Some [quota_exceeded] \<rparr>))
     = Some (Returned (Some (OperationFailed quota_exceeded)),
             [ZoneOperationsWait ''op'', Sleep 500000000, ZoneOperationsWait ''op''])"
    using w [of "\<lambda>k. Inr (if k < 1 then running_operation ''op''
                  else (done_operation ''op'') \<lparr> op_error := Some [quota_exceeded] \<rparr>)",
             THEN conjunct2, THEN conjunct2, THEN conjunct1, rule_format,
             of "Suc 0" "(done_operation ''op'') \<lparr> op_error := Some [quota_exceeded] \<rparr>"
                quota_exceeded "[]"]
    by (simp add: running_operation_def done_operation_def example_factory_def backoff_Stop_def)
  have c: "waitForOp (\<lambda>bf k. if k < 2 then InitialInterval bf else backoff_Stop) example_util
       (ZoneOperationsWait ''op'')
       (\<lambda>k. Inr (running_operation ''op''))
     = Some (Returned (Some BackoffElapsed),
             [ZoneOperationsWait ''op'', Sleep 500000000, ZoneOperationsWait ''op'',
              Sleep 500000000, ZoneOperationsWait ''op''])"
    using w [of "\<lambda>k. Inr (running_operation ''op'')",
             THEN conjunct2, THEN conjunct2, THEN conjunct2, rule_format,
             of "Suc (Suc 0)" "running_operation ''op''"]
    by (simp add: running_operation_def example_factory_def backoff_Stop_def)
  show ?thesis using a b c by simp
qed

text \<open>
  Claim C5. With no backoff factory configured, \<open>waitForOp\<close> returns the
  configuration error at once: the run has no effect at all, neither a fetch
  of the operation nor a sleep, whatever the getter and the backoff library
  would answer; so do the waits on a zone operation and on a global operation.
\<close>

theorem waitForOp_without_factory:
  "operationBackoffFactory c = None \<Longrightarrow>
   waitForOp create c fetch opGetter = Some (Returned (Some BackoffFactoryUndefined), [])
   \<and> waitForRegionalOp w c name = Some (Returned (Some BackoffFactoryUndefined), [])
   \<and> waitForGlobalOp w c name = Some (Returned (Some BackoffFactoryUndefined), [])"
  by (simp add: waitForOp_def waitForRegionalOp_def waitForGlobalOp_def ret_def)

theorem waitForOp_without_factory_witness:
  "waitForOp (\<lambda>bf k. InitialInterval bf) (example_util \<lparr> operationBackoffFactory := None \<rparr>)
      (ZoneOperationsWait ''op'') (\<lambda>k. Inr (done_operation ''op''))
     = Some (Returned (Some BackoffFactoryUndefined), [])"
  using waitForOp_without_factory
    [of "example_util \<lparr> operationBackoffFactory := None \<rparr>" "\<lambda>bf k. InitialInterval bf"
        "ZoneOperationsWait ''op''" "\<lambda>k. Inr (done_operation ''op'')" example_gce "''op''"]
  by simp

text \<open>
  Claim C10. \<open>region\<close> returns the zone without its last two characters when
  the zone has at least two; for a zone of length 0 or 1 the slice expression
  is out of range: \<open>region\<close> panics, and so do \<open>staticAddress\<close> when the
  configured address is a name, and \<open>createInstance\<close> when the metadata is
  prepared without error and a subnetwork is configured by name, before any
  request is sent.
\<close>

theorem region_needs_two_characters:
  "(2 \<le> length (zone c) \<longrightarrow> region c = Returned (butlast (butlast (zone c))))
   \<and> (length (zone c) < 2 \<longrightarrow>
        region c = Panicked SliceBoundsOutOfRange
        \<and> (isName (address c) \<longrightarrow>
             staticAddress w c = Some (Panicked SliceBoundsOutOfRange, []))
        \<and> (prepare_metadata w = None \<and> subnetwork c \<noteq> ''''
             \<and> \<not> Contains (subnetwork c) ''/subnetworks/'' \<longrightarrow>
             createInstance w c d = Some (Panicked SliceBoundsOutOfRange, [])))"
proof -
  have shorten: "take (length xs - 2) xs = butlast (butlast xs)" for xs :: string
    by (simp add: butlast_conv_take numeral_2_eq_2)
  have long: "region c = Returned (butlast (butlast (zone c)))" if "2 \<le> length (zone c)"
    using that by (simp add: region_def shorten)
  have short: "region c = Panicked SliceBoundsOutOfRange" if "length (zone c) < 2"
    using that by (simp add: region_def)
  have static: "staticAddress w c = Some (Panicked SliceBoundsOutOfRange, [])"
    if "length (zone c) < 2" "isName (address c)"
    using that by (simp add: staticAddress_def short panic_run_def)
  have create: "createInstance w c d = Some (Panicked SliceBoundsOutOfRange, [])"
    if "length (zone c) < 2" "prepare_metadata w = None" "subnetwork c \<noteq> ''''"
       "\<not> Contains (subnetwork c) ''/subnetworks/''"
    using that by (simp add: createInstance_def instance_subnetwork_def short panic_run_def)
  show ?thesis
    using long short static create by blast
qed

theorem region_needs_two_characters_witness:
  "region example_util = Returned ''us-central1''
   \<and> region (example_util \<lparr> zone := ''a'' \<rparr>) = Panicked SliceBoundsOutOfRange
   \<and> staticAddress example_gce (example_util \<lparr> zone := ''a'', address := ''my-address'' \<rparr>)
       = Some (Panicked SliceBoundsOutOfRange, [])
   \<and> createInstance example_gce (example_util \<lparr> zone := '''', subnetwork := ''my-subnet'' \<rparr>)
        example_Driver
       = Some (Panicked SliceBoundsOutOfRange, [])"
proof -
  have a: "region example_util = Returned ''us-central1''"
    using region_needs_two_characters [of example_util example_gce example_Driver]
    by (simp add: example_util_def)
  have b: "region (example_util \<lparr> zone := ''a'' \<rparr>) = Panicked SliceBoundsOutOfRange
           \<and> staticAddress example_gce (example_util \<lparr> zone := ''a'', address := ''my-address'' \<rparr>)
               = Some (Panicked SliceBoundsOutOfRange, [])"
    using region_needs_two_characters
            [of "example_util \<lparr> zone := ''a'' \<rparr>" example_gce example_Driver]
          region_needs_two_characters
            [of "example_util \<lparr> zone := ''a'', address := ''my-address'' \<rparr>" example_gce example_Driver]
    by (simp add: example_util_def isName_def lower_letter_def)
  have c: "createInstance example_gce (example_util \<lparr> zone := '''', subnetwork := ''my-subnet'' \<rparr>)
             example_Driver
           = Some (Panicked SliceBoundsOutOfRange, [])"
    using region_needs_two_characters
            [of "example_util \<lparr> zone := '''', subnetwork := ''my-subnet'' \<rparr>" example_gce example_Driver]
    by (simp add: example_util_def example_gce_def)
  show ?thesis using a b c by simp
qed

subsection \<open>The state of the host\<close>

text \<open>
  Claim C1 fails as stated. The google driver maps \<open>STOPPING\<close> to \<open>Stopped\<close>
  where the table has \<open>Stopping\<close>, and a status that it does not know to
  \<open>None\<close>, without a warning, where the table has \<open>Error\<close>; the amazonec2
  driver maps \<open>terminated\<close> to \<open>Error\<close> where the table has \<open>Stopped\<close>.
\<close>

theorem GetState_table_counterexample:
  "google_GetState
       (example_gce \<lparr> instances_get := (Some (example_instance \<lparr> Status := ''STOPPING'' \<rparr>), None) \<rparr>)
       example_Driver
     = Some (Returned (Stopped, None), [InstancesGet])
   \<and> derivation_table (Some ''STOPPING'') True = (Stopping, False)
   \<and> google_GetState
       (example_gce \<lparr> instances_get := (Some (example_instance \<lparr> Status := ''SUSPENDED'' \<rparr>), None) \<rparr>)
       example_Driver
     = Some (Returned (NoneState, None), [InstancesGet])
   \<and> derivation_table (Some ''SUSPENDED'') True = (Error, True)
   \<and> amazonec2_GetState
       (ec2_with_instance (example_ec2_instance \<lparr> State_Name := ''terminated'' \<rparr>))
       example_ec2_Driver
     = Some (Returned (Error, None), [DescribeInstances ''i-0abc''])
   \<and> derivation_table (Some ''terminated'') True = (Stopped, False)"
proof -
  have g1: "google_GetState
       (example_gce \<lparr> instances_get := (Some (example_instance \<lparr> Status := ''STOPPING'' \<rparr>), None) \<rparr>)
       example_Driver
     = Some (Returned (Stopped, None), [InstancesGet])"
    by (simp add: google_GetState_def newComputeUtil_def example_gce_def instance_vm_def
          run_simps)
  have g2: "google_GetState
       (example_gce \<lparr> instances_get := (Some (example_instance \<lparr> Status := ''SUSPENDED'' \<rparr>), None) \<rparr>)
       example_Driver
     = Some (Returned (NoneState, None), [InstancesGet])"
    by (simp add: google_GetState_def newComputeUtil_def example_gce_def instance_vm_def
          run_simps)
  have a: "amazonec2_GetState
       (ec2_with_instance (example_ec2_instance \<lparr> State_Name := ''terminated'' \<rparr>))
       example_ec2_Driver
     = Some (Returned (Error, None), [DescribeInstances ''i-0abc''])"
    by (simp add: amazonec2_GetState_def getInstance_def ec2_with_instance_def example_ec2_def
          example_ec2_Driver_def run_simps
          InstanceStateNamePending_def InstanceStateNameRunning_def InstanceStateNameStopping_def
          InstanceStateNameShuttingDown_def InstanceStateNameStopped_def
          InstanceStateNameTerminated_def)
  have t: "derivation_table (Some ''STOPPING'') True = (Stopping, False)"
          "derivation_table (Some ''SUSPENDED'') True = (Error, True)"
          "derivation_table (Some ''terminated'') True = (Stopped, False)"
    by code_simp+
  show ?thesis using g1 g2 a t by simp
qed

text \<open>
  Claim C1, amended. The google driver, once its client is built, returns
  \<open>None\<close> when neither the instance nor the disk is found and \<open>Stopped\<close> when
  only the disk is found; for an instance that is found it returns \<open>Starting\<close>
  for \<open>PROVISIONING\<close> and \<open>STAGING\<close>, \<open>Running\<close> for \<open>RUNNING\<close>, \<open>Stopped\<close> for
  \<open>STOPPING\<close>, \<open>STOPPED\<close> and \<open>TERMINATED\<close>, and \<open>None\<close> for any other status,
  and it logs nothing. The amazonec2 driver returns \<open>Starting\<close> for \<open>pending\<close>,
  \<open>Running\<close> for \<open>running\<close>, \<open>Stopping\<close> for \<open>stopping\<close> and \<open>shutting-down\<close>,
  \<open>Stopped\<close> for \<open>stopped\<close>, \<open>Error\<close> for \<open>terminated\<close>, and \<open>Error\<close> with a
  logged warning for any other state name; when the instance cannot be
  fetched it returns \<open>Error\<close> together with the error, and no volume is looked at.
\<close>

theorem GetState_tables:
  "(default_client w = None \<longrightarrow>
      (fst (instances_get w) = None \<and> fst (disks_get w) = None \<longrightarrow>
         google_GetState w d = Some (Returned (NoneState, None), [InstancesGet, DisksGet]))
    \<and> (fst (instances_get w) = None \<and> fst (disks_get w) \<noteq> None \<longrightarrow>
         google_GetState w d = Some (Returned (Stopped, None), [InstancesGet, DisksGet]))
    \<and> (\<forall>i. fst (instances_get w) = Some i \<longrightarrow>
         google_GetState w d =
           Some (Returned
                  (if Status i = ''PROVISIONING'' \<or> Status i = ''STAGING'' then Starting
                   else if Status i = ''RUNNING'' then Running
                   else if Status i = ''STOPPING'' \<or> Status i = ''STOPPED''
                           \<or> Status i = ''TERMINATED'' then Stopped
                   else NoneState, None),
                 [InstancesGet])))
   \<and> (\<forall>inst insts others.
         describe_instances a (InstanceId e) = Inr (Some ((inst # insts) # others)) \<longrightarrow>
         amazonec2_GetState a e =
           (if State_Name inst = ''pending'' then
              Some (Returned (Starting, None), [DescribeInstances (InstanceId e)])
            else if State_Name inst = ''running'' then
              Some (Returned (Running, None), [DescribeInstances (InstanceId e)])
            else if State_Name inst = ''stopping'' \<or> State_Name inst = ''shutting-down'' then
              Some (Returned (Stopping, None), [DescribeInstances (InstanceId e)])
            else if State_Name inst = ''stopped'' then
              Some (Returned (Stopped, None), [DescribeInstances (InstanceId e)])
            else if State_Name inst = ''terminated'' then
              Some (Returned (Error, None), [DescribeInstances (InstanceId e)])
            else
              Some (Returned (Error, None),
                    [DescribeInstances (InstanceId e),
                     Warn (''unrecognized instance state: '' @ State_Name inst)])))
   \<and> (\<forall>err. describe_instances a (InstanceId e) = Inl err \<longrightarrow>
         amazonec2_GetState a e
           = Some (Returned (Error, Some (Api err)), [DescribeInstances (InstanceId e)]))
   \<and> (describe_instances a (InstanceId e) = Inr None
        \<or> describe_instances a (InstanceId e) = Inr (Some [])
        \<or> (\<exists>others. describe_instances a (InstanceId e) = Inr (Some ([] # others))) \<longrightarrow>
         amazonec2_GetState a e
           = Some (Returned (Error, Some ErrorGettingInstance), [DescribeInstances (InstanceId e)]))"
proof -
  have google_absent:
    "google_GetState w d
       = Some (Returned (if fst (disks_get w) = None then NoneState else Stopped, None),
               [InstancesGet, DisksGet])"
    if "default_client w = None" "fst (instances_get w) = None"
    using that
    by (cases "instances_get w"; cases "disks_get w")
       (simp add: google_GetState_def newComputeUtil_def instance_vm_def disk_def
          run_simps)
  have google_present:
    "google_GetState w d =
           Some (Returned
                  (if Status i = ''PROVISIONING'' \<or> Status i = ''STAGING'' then Starting
                   else if Status i = ''RUNNING'' then Running
                   else if Status i = ''STOPPING'' \<or> Status i = ''STOPPED''
                           \<or> Status i = ''TERMINATED'' then Stopped
                   else NoneState, None),
                 [InstancesGet])"
    if "default_client w = None" "fst (instances_get w) = Some i" for i
    using that
    by (cases "instances_get w")
       (simp add: google_GetState_def newComputeUtil_def instance_vm_def
          run_simps)
  have names:
    "InstanceStateNamePending = ''pending''" "InstanceStateNameRunning = ''running''"
    "InstanceStateNameStopping = ''stopping''" "InstanceStateNameShuttingDown = ''shutting-down''"
    "InstanceStateNameStopped = ''stopped''" "InstanceStateNameTerminated = ''terminated''"
    by (simp_all add: InstanceStateNamePending_def InstanceStateNameRunning_def
          InstanceStateNameStopping_def InstanceStateNameShuttingDown_def
          InstanceStateNameStopped_def InstanceStateNameTerminated_def)
  have amazon_present:
    "amazonec2_GetState a e =
           (if State_Name inst = ''pending'' then
              Some (Returned (Starting, None), [DescribeInstances (InstanceId e)])
            else if State_Name inst = ''running'' then
              Some (Returned (Running, None), [DescribeInstances (InstanceId e)])
            else if State_Name inst = ''stopping'' \<or> State_Name inst = ''shutting-down'' then
              Some (Returned (Stopping, None), [DescribeInstances (InstanceId e)])
            else if State_Name inst = ''stopped'' then
              Some (Returned (Stopped, None), [DescribeInstances (InstanceId e)])
            else if State_Name inst = ''terminated'' then
              Some (Returned (Error, None), [DescribeInstances (InstanceId e)])
            else
              Some (Returned (Error, None),
                    [DescribeInstances (InstanceId e),
                     Warn (''unrecognized instance state: '' @ State_Name inst)]))"
    if "describe_instances a (InstanceId e) = Inr (Some ((inst # insts) # others))"
    for inst insts others
    using that
    by (simp add: amazonec2_GetState_def getInstance_def run_simps names)
  have amazon_error:
    "amazonec2_GetState a e
       = Some (Returned (Error, Some (Api err)), [DescribeInstances (InstanceId e)])"
    if "describe_instances a (InstanceId e) = Inl err" for err
    using that
    by (simp add: amazonec2_GetState_def getInstance_def run_simps)
  have amazon_empty:
    "amazonec2_GetState a e
       = Some (Returned (Error, Some ErrorGettingInstance), [DescribeInstances (InstanceId e)])"
    if "describe_instances a (InstanceId e) = Inr None
        \<or> describe_instances a (InstanceId e) = Inr (Some [])
        \<or> (\<exists>others. describe_instances a (InstanceId e) = Inr (Some ([] # others)))"
    using that
    by (auto simp: amazonec2_GetState_def getInstance_def run_simps)
  show ?thesis
    using google_absent google_present amazon_present amazon_error amazon_empty
    by (intro conjI impI allI) simp_all
qed

theorem GetState_tables_witness:
  "google_GetState (example_gce \<lparr> instances_get := (None, Some (ApiError 404 ''not found'')) \<rparr>)
       example_Driver
     = Some (Returned (Stopped, None), [InstancesGet, DisksGet])
   \<and> google_GetState example_gce example_Driver = Some (Returned (Running, None), [InstancesGet])
   \<and> amazonec2_GetState (ec2_with_instance (example_ec2_instance \<lparr> State_Name := ''rebooting'' \<rparr>))
        example_ec2_Driver
     = Some (Returned (Error, None),
             [DescribeInstances ''i-0abc'', Warn ''unrecognized instance state: rebooting''])"
proof -
  have a: "google_GetState (example_gce \<lparr> instances_get := (None, Some (ApiError 404 ''not found'')) \<rparr>)
       example_Driver
     = Some (Returned (Stopped, None), [InstancesGet, DisksGet])"
    using GetState_tables
      [of "example_gce \<lparr> instances_get := (None, Some (ApiError 404 ''not found'')) \<rparr>"
          example_Driver example_ec2 example_ec2_Driver]
    by (simp add: example_gce_def)
  have b: "google_GetState example_gce example_Driver = Some (Returned (Running, None), [InstancesGet])"
    using GetState_tables [of example_gce example_Driver example_ec2 example_ec2_Driver]
    by (simp add: example_gce_def example_instance_def)
  have c: "amazonec2_GetState (ec2_with_instance (example_ec2_instance \<lparr> State_Name := ''rebooting'' \<rparr>))
        example_ec2_Driver
     = Some (Returned (Error, None),
             [DescribeInstances ''i-0abc'', Warn ''unrecognized instance state: rebooting''])"
    using GetState_tables
      [of example_gce example_Driver
          "ec2_with_instance (example_ec2_instance \<lparr> State_Name := ''rebooting'' \<rparr>)"
          example_ec2_Driver]
    by (simp add: ec2_with_instance_def example_ec2_def example_ec2_Driver_def)
  show ?thesis using a b c by simp
qed

subsection \<open>Teardown\<close>

text \<open>The two steps of the amazonec2 teardown always return.\<close>

lemma terminate_returns: "\<exists>e1 es1. terminate a e = Some (Returned e1, es1)"
  by (cases "terminate_instances a (InstanceId e)") (simp_all add: terminate_def run_simps)

lemma deleteKeyPair_returns: "\<exists>e2 es2. deleteKeyPair a e = Some (Returned e2, es2)"
  by (cases "delete_key_pair a (KeyName e)") (simp_all add: deleteKeyPair_def run_simps)

lemma terminate_requests:
  "InstanceId e \<noteq> '''' \<Longrightarrow> terminate a e = Some (r, es) \<Longrightarrow>
   filter is_request es = [TerminateInstances (InstanceId e)]"
  by (cases "terminate_instances a (InstanceId e)")
     (auto simp: terminate_def run_simps split: if_splits)

lemma deleteKeyPair_requests:
  "KeyName e \<noteq> '''' \<Longrightarrow> deleteKeyPair a e = Some (r, es) \<Longrightarrow>
   filter is_request es = [DeleteKeyPair (KeyName e)]"
  by (cases "delete_key_pair a (KeyName e)")
     (auto simp: deleteKeyPair_def run_simps split: if_splits)

lemma terminate_no_key_request:
  "terminate a e = Some (r, es) \<Longrightarrow> list_all (\<lambda>x. \<forall>n. x \<noteq> DeleteKeyPair n) es"
  by (cases "terminate_instances a (InstanceId e)")
     (auto simp: terminate_def run_simps split: if_splits)

lemma amazonec2_Remove_steps:
  "terminate a e = Some (Returned e1, es1) \<Longrightarrow>
   (if \<not> ExistingKey e then deleteKeyPair a e else ret None) = Some (Returned e2, es2) \<Longrightarrow>
   amazonec2_Remove a e =
     Some (Returned
            (if e1 = None \<and> e2 = None then None
             else Some (MultiError ((case e1 of Some err \<Rightarrow> [err] | None \<Rightarrow> [])
                                    @ (case e2 of Some err \<Rightarrow> [err] | None \<Rightarrow> [])))),
           es1 @ es2)"
  by (cases e1; cases e2) (simp_all add: amazonec2_Remove_def run_simps)

text \<open>
  Claim C7 fails as stated: the google driver stops at the first deletion that
  fails. When the deletion of the instance is refused, the disk is not looked
  at, and the error returned is that one error.
\<close>

theorem Remove_best_effort_counterexample:
  "google_Remove (example_gce \<lparr> instances_delete := Inl (ApiError 500 ''backend error'') \<rparr>)
       example_Driver
     = Some (Returned (Some (ApiError 500 ''backend error'')), [InstancesDelete])"
  by (simp add: google_Remove_def newComputeUtil_def deleteInstance_def example_gce_def run_simps)

text \<open>
  Claim C7, amended. The amazonec2 driver always runs both steps of its
  teardown, the termination of the instance and then, unless the key pair was
  supplied by the caller, the deletion of the key pair: the second runs
  whatever the first returned. It returns no error when neither failed, and
  otherwise an aggregate that carries the errors of the steps that failed, in
  order; it has no step for the volume. The google driver deletes the
  instance and then the disk, has no step for a key pair, and returns the
  first error that is not a not-found answer, alone and at once: when the
  deletion of the instance fails in this way the disk is not touched.
\<close>

theorem Remove_teardown:
  "(\<exists>e1 es1 e2 es2.
       terminate a e = Some (Returned e1, es1)
     \<and> (if \<not> ExistingKey e then deleteKeyPair a e else ret None) = Some (Returned e2, es2)
     \<and> amazonec2_Remove a e =
         Some (Returned
                (if e1 = None \<and> e2 = None then None
                 else Some (MultiError ((case e1 of Some err \<Rightarrow> [err] | None \<Rightarrow> [])
                                        @ (case e2 of Some err \<Rightarrow> [err] | None \<Rightarrow> [])))),
               es1 @ es2)
     \<and> (InstanceId e \<noteq> '''' \<and> \<not> ExistingKey e \<and> KeyName e \<noteq> '''' \<longrightarrow>
          filter is_request (es1 @ es2)
            = [TerminateInstances (InstanceId e), DeleteKeyPair (KeyName e)])
     \<and> (ExistingKey e \<longrightarrow> list_all (\<lambda>x. \<forall>n. x \<noteq> DeleteKeyPair n) (es1 @ es2)))
   \<and> (\<forall>c. newComputeUtil w d = Inr c \<longrightarrow>
         (\<forall>err es. deleteInstance w c = Some (Returned (Some err), es) \<and> \<not> isNotFound err \<longrightarrow>
            google_Remove w d = Some (Returned (Some err), es))
       \<and> (\<forall>e1 es1 err es2.
            deleteInstance w c = Some (Returned e1, es1)
            \<and> (case e1 of None \<Rightarrow> True | Some err1 \<Rightarrow> isNotFound err1)
            \<and> deleteDisk w c = Some (Returned (Some err), es2) \<and> \<not> isNotFound err \<longrightarrow>
            (\<exists>warned. google_Remove w d = Some (Returned (Some err), es1 @ warned @ es2)
                     \<and> list_all (\<lambda>x. \<not> is_request x) warned)))"
proof -
  obtain e1 es1 where t: "terminate a e = Some (Returned e1, es1)"
    using terminate_returns by blast
  have "\<exists>e2 es2. (if \<not> ExistingKey e then deleteKeyPair a e else ret None)
                     = Some (Returned e2, es2)"
    using deleteKeyPair_returns [of a e] by (cases "ExistingKey e") (simp_all add: ret_def)
  then obtain e2 es2 where
    k: "(if \<not> ExistingKey e then deleteKeyPair a e else ret None) = Some (Returned e2, es2)"
    by blast
  have requests: "filter is_request (es1 @ es2)
                    = [TerminateInstances (InstanceId e), DeleteKeyPair (KeyName e)]"
    if "InstanceId e \<noteq> ''''" "\<not> ExistingKey e" "KeyName e \<noteq> ''''"
    using that t k terminate_requests [of e a "Returned e1" es1]
      deleteKeyPair_requests [of e a "Returned e2" es2]
    by simp
  have kept: "list_all (\<lambda>x. \<forall>n. x \<noteq> DeleteKeyPair n) (es1 @ es2)" if "ExistingKey e"
    using that t k terminate_no_key_request [of a e "Returned e1" es1]
    by (simp add: ret_def)
  have amazon: "\<exists>e1 es1 e2 es2.
       terminate a e = Some (Returned e1, es1)
     \<and> (if \<not> ExistingKey e then deleteKeyPair a e else ret None) = Some (Returned e2, es2)
     \<and> amazonec2_Remove a e =
         Some (Returned
                (if e1 = None \<and> e2 = None then None
                 else Some (MultiError ((case e1 of Some err \<Rightarrow> [err] | None \<Rightarrow> [])
                                        @ (case e2 of Some err \<Rightarrow> [err] | None \<Rightarrow> [])))),
               es1 @ es2)
     \<and> (InstanceId e \<noteq> '''' \<and> \<not> ExistingKey e \<and> KeyName e \<noteq> '''' \<longrightarrow>
          filter is_request (es1 @ es2)
            = [TerminateInstances (InstanceId e), DeleteKeyPair (KeyName e)])
     \<and> (ExistingKey e \<longrightarrow> list_all (\<lambda>x. \<forall>n. x \<noteq> DeleteKeyPair n) (es1 @ es2))"
    using t k amazonec2_Remove_steps [OF t k] requests kept by blast
  have first: "google_Remove w d = Some (Returned (Some err), es)"
    if "newComputeUtil w d = Inr c" "deleteInstance w c = Some (Returned (Some err), es)"
       "\<not> isNotFound err" for c err es
    using that by (simp add: google_Remove_def run_simps)
  have second: "\<exists>warned. google_Remove w d = Some (Returned (Some err), es1 @ warned @ es2)
                  \<and> list_all (\<lambda>x. \<not> is_request x) warned"
    if "newComputeUtil w d = Inr c" "deleteInstance w c = Some (Returned e1, es1)"
       "case e1 of None \<Rightarrow> True | Some err1 \<Rightarrow> isNotFound err1"
       "deleteDisk w c = Some (Returned (Some err), es2)" "\<not> isNotFound err"
    for c e1 es1 err es2
  proof (cases e1)
    case None
    with that have "google_Remove w d = Some (Returned (Some err), es1 @ [] @ es2)"
      by (simp add: google_Remove_def run_simps)
    then show ?thesis by force
  next
    case (Some err1)
    with that have "google_Remove w d
        = Some (Returned (Some err),
                es1 @ [Warn ''Remote instance does not exist, proceeding with removing local reference'']
                    @ es2)"
      by (simp add: google_Remove_def run_simps)
    then show ?thesis by force
  qed
  show ?thesis
    using amazon first second by blast
qed

theorem Remove_teardown_witness:
  "amazonec2_Remove ec2_failing_teardown example_ec2_Driver
     = Some (Returned
              (Some (MultiError
                 [UnableToTerminate (aws_error ''UnauthorizedOperation'' ''not authorized''),
                  Api (aws_error ''RequestLimitExceeded'' ''slow down'')])),
             [TerminateInstances ''i-0abc'', DeleteKeyPair ''vm''])"
proof -
  have t: "terminate ec2_failing_teardown example_ec2_Driver
             = Some (Returned (Some (UnableToTerminate
                        (aws_error ''UnauthorizedOperation'' ''not authorized''))),
                     [TerminateInstances ''i-0abc''])"
    by (simp add: terminate_def ec2_failing_teardown_def example_ec2_def example_ec2_Driver_def
          aws_error_def run_simps)
  have k: "deleteKeyPair ec2_failing_teardown example_ec2_Driver
             = Some (Returned (Some (Api (aws_error ''RequestLimitExceeded'' ''slow down''))),
                     [DeleteKeyPair ''vm''])"
    by (simp add: deleteKeyPair_def ec2_failing_teardown_def example_ec2_def
          example_ec2_Driver_def run_simps)
  have x: "\<not> ExistingKey example_ec2_Driver"
    by (simp add: example_ec2_Driver_def)
  show ?thesis
    using Remove_teardown [of ec2_failing_teardown example_ec2_Driver example_gce example_Driver]
      t k x
    by auto
qed

text \<open>
  Claim C8 fails as stated for the key pair of the amazonec2 driver:
  \<open>deleteKeyPair\<close> passes on every error that \<open>DeleteKeyPair\<close> answers, so an
  answer that the key pair is not found comes back as the error of \<open>Remove\<close>.
\<close>

theorem Remove_idempotent_counterexample:
  "amazonec2_Remove ec2_without_key_pair example_ec2_Driver
     = Some (Returned
              (Some (MultiError
                 [Api (aws_error ''InvalidKeyPair.NotFound'' ''The key pair does not exist'')])),
             [TerminateInstances ''i-0abc'', DeleteKeyPair ''vm''])"
  by (simp add: amazonec2_Remove_def terminate_def deleteKeyPair_def ec2_without_key_pair_def
        example_ec2_def example_ec2_Driver_def run_simps)

text \<open>
  Claim C8, amended. In the google driver an error returned by \<open>Remove\<close>, once
  the client is built, is never a not-found answer; a disk that is not found
  is no error for \<open>deleteDisk\<close>, which then sends no deletion; and when the
  instance is answered not found and the disk is not found, \<open>Remove\<close> succeeds.
  In the amazonec2 driver \<open>terminate\<close> succeeds without a request when no
  instance identifier is recorded, and succeeds when the answer to the
  termination begins with \<open>unknown instance\<close> or \<open>InvalidInstanceID.NotFound\<close>;
  \<open>deleteKeyPair\<close> succeeds without a request when no key name is recorded,
  and otherwise reports any error answered to the deletion, whatever its code.
\<close>

theorem Remove_absent_resources:
  "(\<forall>c. newComputeUtil w d = Inr c \<longrightarrow>
       (\<forall>err es. google_Remove w d = Some (Returned (Some err), es) \<longrightarrow> \<not> isNotFound err)
     \<and> (fst (disks_get w) = None \<longrightarrow> deleteDisk w c = Some (Returned None, [DisksGet]))
     \<and> (\<forall>err. instances_delete w = Inl err \<and> isNotFound err \<and> fst (disks_get w) = None \<longrightarrow>
          google_Remove w d =
            Some (Returned None,
                  [InstancesDelete,
                   Warn ''Remote instance does not exist, proceeding with removing local reference'',
                   DisksGet])))
   \<and> (InstanceId e = '''' \<longrightarrow>
        terminate a e =
          Some (Returned None,
                [Warn ''Missing instance ID, this is likely due to a failure during machine creation'']))
   \<and> (\<forall>err. InstanceId e \<noteq> '''' \<and> terminate_instances a (InstanceId e) = Some err
          \<and> (HasPrefix (err_text err) ''unknown instance''
               \<or> HasPrefix (err_text err) ''InvalidInstanceID.NotFound'') \<longrightarrow>
        terminate a e =
          Some (Returned None,
                [TerminateInstances (InstanceId e),
                 Warn ''Remote instance does not exist, proceeding with removing local reference'']))
   \<and> (KeyName e = '''' \<longrightarrow>
        deleteKeyPair a e =
          Some (Returned None,
                [Warn ''Missing key pair name, this is likely due to a failure during machine creation'']))
   \<and> (\<forall>err. KeyName e \<noteq> '''' \<and> delete_key_pair a (KeyName e) = Some err \<longrightarrow>
        deleteKeyPair a e = Some (Returned (Some (Api err)), [DeleteKeyPair (KeyName e)]))"
proof -
  have surfaced: "\<not> isNotFound err"
    if c: "newComputeUtil w d = Inr c"
      and r: "google_Remove w d = Some (Returned (Some err), es)" for c err es
  proof (cases "deleteInstance w c")
    case None
    with c r show ?thesis by (simp add: google_Remove_def run_simps)
  next
    case (Some x)
    then obtain o1 es1 where x: "deleteInstance w c = Some (o1, es1)" by (cases x) simp
    show ?thesis
    proof (cases o1)
      case (Panicked p)
      with c r x show ?thesis by (simp add: google_Remove_def run_simps)
    next
      case (Returned e1)
      show ?thesis
      proof (cases "case e1 of None \<Rightarrow> True | Some err1 \<Rightarrow> isNotFound err1")
        case False
        with c r x Returned show ?thesis
          by (auto simp: google_Remove_def run_simps split: option.splits)
      next
        case True
        show ?thesis
        proof (cases "deleteDisk w c")
          case None
          with c r x Returned True show ?thesis
            by (auto simp: google_Remove_def run_simps split: option.splits)
        next
          case (Some y)
          then obtain o2 es2 where y: "deleteDisk w c = Some (o2, es2)" by (cases y) simp
          show ?thesis
          proof (cases o2)
            case (Panicked p)
            with c r x Returned True y show ?thesis
              by (auto simp: google_Remove_def run_simps split: option.splits)
          next
            case inner: (Returned e2)
            with c r x Returned True y show ?thesis
              by (auto simp: google_Remove_def run_simps split: option.splits if_splits)
          qed
        qed
      qed
    qed
  qed
  have no_disk: "deleteDisk w c = Some (Returned None, [DisksGet])"
    if "fst (disks_get w) = None" for c
    using that by (cases "disks_get w") (simp add: deleteDisk_def disk_def run_simps)
  have both_absent:
    "google_Remove w d =
       Some (Returned None,
             [InstancesDelete,
              Warn ''Remote instance does not exist, proceeding with removing local reference'',
              DisksGet])"
    if "newComputeUtil w d = Inr c" "instances_delete w = Inl err" "isNotFound err"
       "fst (disks_get w) = None" for c err
    using that no_disk [of c]
    by (simp add: google_Remove_def deleteInstance_def run_simps)
  have no_instance:
    "terminate a e =
       Some (Returned None,
             [Warn ''Missing instance ID, this is likely due to a failure during machine creation''])"
    if "InstanceId e = ''''"
    using that by (simp add: terminate_def run_simps)
  have unknown_instance:
    "terminate a e =
       Some (Returned None,
             [TerminateInstances (InstanceId e),
              Warn ''Remote instance does not exist, proceeding with removing local reference''])"
    if "InstanceId e \<noteq> ''''" "terminate_instances a (InstanceId e) = Some err"
       "HasPrefix (err_text err) ''unknown instance''
        \<or> HasPrefix (err_text err) ''InvalidInstanceID.NotFound''" for err
    using that by (auto simp: terminate_def run_simps)
  have no_key:
    "deleteKeyPair a e =
       Some (Returned None,
             [Warn ''Missing key pair name, this is likely due to a failure during machine creation''])"
    if "KeyName e = ''''"
    using that by (simp add: deleteKeyPair_def run_simps)
  have key_error:
    "deleteKeyPair a e = Some (Returned (Some (Api err)), [DeleteKeyPair (KeyName e)])"
    if "KeyName e \<noteq> ''''" "delete_key_pair a (KeyName e) = Some err" for err
    using that by (simp add: deleteKeyPair_def run_simps)
  show ?thesis
    using surfaced no_disk both_absent no_instance unknown_instance no_key key_error
    by blast
qed

theorem Remove_absent_resources_witness:
  "google_Remove
       (example_gce \<lparr> instances_delete := Inl (ApiError 404 ''instance not found''),
                      disks_get := (None, Some (ApiError 404 ''disk not found'')) \<rparr>)
       example_Driver
     = Some (Returned None,
             [InstancesDelete,
              Warn ''Remote instance does not exist, proceeding with removing local reference'',
              DisksGet])
   \<and> terminate example_ec2 (example_ec2_Driver \<lparr> InstanceId := '''' \<rparr>)
     = Some (Returned None,
             [Warn ''Missing instance ID, this is likely due to a failure during machine creation''])"
proof -
  have u: "newComputeUtil
             (example_gce \<lparr> instances_delete := Inl (ApiError 404 ''instance not found''),
                            disks_get := (None, Some (ApiError 404 ''disk not found'')) \<rparr>)
             example_Driver = Inr example_util"
    by (simp add: newComputeUtil_def example_gce_def example_Driver_def example_util_def apiURL_def)
  show ?thesis
    using Remove_absent_resources
      [of "example_gce \<lparr> instances_delete := Inl (ApiError 404 ''instance not found''),
                         disks_get := (None, Some (ApiError 404 ''disk not found'')) \<rparr>"
          example_Driver "example_ec2_Driver \<lparr> InstanceId := '''' \<rparr>" example_ec2]
      u
    by (simp add: example_gce_def example_ec2_Driver_def)
qed

subsection \<open>The address of the host\<close>


lemma waitForGlobalOp_done_at_once:
  "operationBackoffFactory c = Some bf \<Longrightarrow> global_operations_wait w name 0 = Inr op \<Longrightarrow>
   op_status op = ''DONE'' \<Longrightarrow> op_error op = None \<Longrightarrow>
   waitForGlobalOp w c name = Some (Returned None, [GlobalOperationsWait name])"
  using waitLoop_done [of "global_operations_wait w name" 0 op "GlobalOperationsWait name"
                          "next_backoff w name bf" "[]"]
  by (simp add: waitForGlobalOp_def waitForOp_def)





subsection \<open>Creation and its compensation\<close>

text \<open>The functions that the google driver calls to create a host send no request of a teardown.\<close>

lemma never_teardown_wait:
  "never teardown_request (waitForRegionalOp w c name)"
  "never teardown_request (waitForGlobalOp w c name)"
  by (simp_all add: never_waitForRegionalOp never_waitForGlobalOp)

lemma never_teardown_uploadSSHKey: "never teardown_request (uploadSSHKey w c inst)"
  by (auto simp: uploadSSHKey_def Let_def
        intro!: never_andThen never_ret never_request never_panic_run never_teardown_wait
        split: sum.splits option.splits)

lemma never_teardown_addFirewallTag: "never teardown_request (addFirewallTag w c inst)"
  by (auto simp: addFirewallTag_def
        intro!: never_andThen never_ret never_request never_panic_run never_teardown_wait
        split: sum.splits option.splits)

lemma never_teardown_configureInstance: "never teardown_request (configureInstance w c d)"
  by (auto simp: configureInstance_def instance_vm_def
        intro!: never_andThen never_ret never_request never_teardown_uploadSSHKey
          never_teardown_addFirewallTag
        split: option.splits prod.splits)

lemma never_teardown_staticAddress: "never teardown_request (staticAddress w c)"
  by (auto simp: staticAddress_def
        intro!: never_ret never_request never_panic_run split: outcome.splits)

lemma never_teardown_createInstance: "never teardown_request (createInstance w c d)"
  by (auto simp: createInstance_def instance_vm_def disk_def Let_def
        intro!: never_andThen never_ret never_request never_panic_run never_teardown_wait
          never_teardown_uploadSSHKey never_teardown_staticAddress
        split: sum.splits option.splits prod.splits outcome.splits list.splits)

lemma never_teardown_openFirewallPorts: "never teardown_request (openFirewallPorts w c d)"
  by (auto simp: openFirewallPorts_def firewallRule_def Let_def
        intro!: never_andThen never_ret never_request never_panic_run never_teardown_wait
        split: sum.splits option.splits prod.splits outcome.splits)

lemma never_teardown_google_Create: "never teardown_request (google_Create w d)"
  by (auto simp: google_Create_def
        intro!: never_andThen never_ret never_teardown_openFirewallPorts
          never_teardown_configureInstance never_teardown_createInstance
        split: sum.splits option.splits)

lemma amazonec2_Remove_returns: "\<exists>r es. amazonec2_Remove a e = Some (Returned r, es)"
proof -
  obtain e1 es1 where t: "terminate a e = Some (Returned e1, es1)"
    using terminate_returns by blast
  have "\<exists>e2 es2. (if \<not> ExistingKey e then deleteKeyPair a e else ret None)
                     = Some (Returned e2, es2)"
    using deleteKeyPair_returns [of a e] by (cases "ExistingKey e") (simp_all add: ret_def)
  then obtain e2 es2 where
    k: "(if \<not> ExistingKey e then deleteKeyPair a e else ret None) = Some (Returned e2, es2)"
    by blast
  from amazonec2_Remove_steps [OF t k] show ?thesis by blast
qed

text \<open>
  Claim C3 fails as stated for the google driver, whose \<open>Create\<close> never calls
  \<open>Remove\<close>: when the insertion of the instance is refused, the error is
  returned and nothing is deleted.
\<close>

theorem Create_compensation_counterexample:
  "google_Create (example_gce \<lparr> instances_insert := Inl (ApiError 403 ''quota exceeded'') \<rparr>)
       example_Driver
     = Some (Returned (Some (ApiError 403 ''quota exceeded'')),
             [FirewallsGet, DisksGet, InstancesInsert None [''''] False])"
proof -
  have u: "newComputeUtil (example_gce \<lparr> instances_insert := Inl (ApiError 403 ''quota exceeded'') \<rparr>)
             example_Driver = Inr example_util"
    by (simp add: newComputeUtil_def example_gce_def example_Driver_def example_util_def apiURL_def)
  have f: "openFirewallPorts
             (example_gce \<lparr> instances_insert := Inl (ApiError 403 ''quota exceeded'') \<rparr>)
             example_util example_Driver
           = Some (Returned None, [FirewallsGet])"
    by (simp add: openFirewallPorts_def firewallRule_def portsUsed_def missingOpenedPorts_def
          opened_def example_gce_def example_util_def example_firewall_def dockerPort_def
          split_at_slash_def run_simps)
  have c: "createInstance
             (example_gce \<lparr> instances_insert := Inl (ApiError 403 ''quota exceeded'') \<rparr>)
             example_util example_Driver
           = Some (Returned (Some (ApiError 403 ''quota exceeded'')),
                   [DisksGet, InstancesInsert None [''''] False])"
    by (simp add: createInstance_def instance_subnetwork_def disk_def example_gce_def
          example_util_def run_simps)
  have g: "generate_ssh_key
             (example_gce \<lparr> instances_insert := Inl (ApiError 403 ''quota exceeded'') \<rparr>) = None"
    by (simp add: example_gce_def)
  have x: "\<not> UseExisting example_Driver"
    by (simp add: example_Driver_def)
  show ?thesis
    by (simp add: google_Create_def g u f c x run_simps)
qed

text \<open>
  Claim C3, amended. In the amazonec2 driver, when the prerequisites hold and
  \<open>innerCreate\<close> fails at any of its steps, \<open>Create\<close> runs \<open>Remove\<close> on the
  driver as \<open>innerCreate\<close> left it and then returns the error of \<open>innerCreate\<close>,
  whatever \<open>Remove\<close> returns; a failure of the prerequisites is returned
  without \<open>Remove\<close>. In the google driver \<open>Create\<close> returns the error of the
  step that fails and sends no request of a teardown.
\<close>

theorem Create_compensation:
  "(\<forall>e0 es0 err e1 es1.
       checkPrereqs a e = Some (Returned (None, e0), es0)
       \<and> innerCreate a e0 = Some (Returned (Some err, e1), es1) \<longrightarrow>
       (\<exists>removed es2. amazonec2_Remove a e1 = Some (Returned removed, es2)
          \<and> amazonec2_Create a e = Some (Returned (Some err, e1), es0 @ es1 @ es2)))
   \<and> (\<forall>e0 es0 err.
       checkPrereqs a e = Some (Returned (Some err, e0), es0) \<longrightarrow>
       amazonec2_Create a e = Some (Returned (Some err, e0), es0))
   \<and> never teardown_request (google_Create w d)
   \<and> (\<forall>c err es.
       generate_ssh_key w = None \<and> newComputeUtil w d = Inr c
       \<and> openFirewallPorts w c d = Some (Returned (Some err), es) \<longrightarrow>
       google_Create w d = Some (Returned (Some err), es))
   \<and> (\<forall>c es0 r es.
       generate_ssh_key w = None \<and> newComputeUtil w d = Inr c
       \<and> openFirewallPorts w c d = Some (Returned None, es0)
       \<and> (if UseExisting d then configureInstance w c d else createInstance w c d) = Some (r, es)
       \<longrightarrow> google_Create w d = Some (r, es0 @ es))"
proof -
  have c1: "\<forall>e0 es0 err e1 es1.
       checkPrereqs a e = Some (Returned (None, e0), es0)
       \<and> innerCreate a e0 = Some (Returned (Some err, e1), es1) \<longrightarrow>
       (\<exists>removed es2. amazonec2_Remove a e1 = Some (Returned removed, es2)
          \<and> amazonec2_Create a e = Some (Returned (Some err, e1), es0 @ es1 @ es2))"
  proof (intro allI impI)
    fix e0 es0 err e1 es1
    assume h: "checkPrereqs a e = Some (Returned (None, e0), es0)
               \<and> innerCreate a e0 = Some (Returned (Some err, e1), es1)"
    obtain removed es2 where r: "amazonec2_Remove a e1 = Some (Returned removed, es2)"
      using amazonec2_Remove_returns by blast
    with h have "amazonec2_Create a e = Some (Returned (Some err, e1), es0 @ es1 @ es2)"
      by (simp add: amazonec2_Create_def run_simps)
    with r show "\<exists>removed es2. amazonec2_Remove a e1 = Some (Returned removed, es2)
          \<and> amazonec2_Create a e = Some (Returned (Some err, e1), es0 @ es1 @ es2)"
      by blast
  qed
  have c2: "\<forall>e0 es0 err.
       checkPrereqs a e = Some (Returned (Some err, e0), es0) \<longrightarrow>
       amazonec2_Create a e = Some (Returned (Some err, e0), es0)"
    by (simp add: amazonec2_Create_def run_simps)
  have c3: "never teardown_request (google_Create w d)"
    by (rule never_teardown_google_Create)
  have c4: "\<forall>c err es.
       generate_ssh_key w = None \<and> newComputeUtil w d = Inr c
       \<and> openFirewallPorts w c d = Some (Returned (Some err), es) \<longrightarrow>
       google_Create w d = Some (Returned (Some err), es)"
    by (simp add: google_Create_def run_simps)
  have c5: "\<forall>c es0 r es.
       generate_ssh_key w = None \<and> newComputeUtil w d = Inr c
       \<and> openFirewallPorts w c d = Some (Returned None, es0)
       \<and> (if UseExisting d then configureInstance w c d else createInstance w c d) = Some (r, es)
       \<longrightarrow> google_Create w d = Some (r, es0 @ es)"
    by (auto simp: google_Create_def run_simps)
  show ?thesis
    by (intro conjI) (fact c1 c2 c3 c4 c5)+
qed

theorem Create_compensation_witness:
  "amazonec2_Create ec2_refusing_launch new_ec2_Driver
     = Some (Returned
              (Some (ErrorLaunchingInstance
                       (Api (aws_error ''InstanceLimitExceeded'' ''too many instances''))),
               new_ec2_Driver \<lparr> KeyName := ''vm'', SecurityGroupIds := [''sg-1''] \<rparr>),
             [DescribeKeyPairs ''vm'',
              ImportKeyPair ''vm'',
              DescribeSecurityGroups [''docker-machine''] ''vpc-1'',
              AuthorizeSecurityGroupIngress ''sg-1''
                [port_permission ''tcp'' 22, port_permission ''tcp'' 2376],
              RunInstances
                \<lparr> ri_KeyName = ''vm'', ri_Groups = [''sg-1''], ri_UserData = '''',
                  ri_spot = False,
                  ri_TagSpecifications =
                    [(''instance'', [(''Name'', ''vm'')]),
                     (''volume'', [(''Name'', ''vm'')]),
                     (''network-interface'', [(''Name'', ''vm'')])] \<rparr>,
              Warn ''Missing instance ID, this is likely due to a failure during machine creation'',
              DeleteKeyPair ''vm''])"
proof -
  have p: "checkPrereqs ec2_refusing_launch new_ec2_Driver
             = Some (Returned (None, new_ec2_Driver), [DescribeKeyPairs ''vm''])"
    by code_simp
  have i: "innerCreate ec2_refusing_launch new_ec2_Driver
             = Some (Returned
                      (Some (ErrorLaunchingInstance
                               (Api (aws_error ''InstanceLimitExceeded'' ''too many instances''))),
                       new_ec2_Driver \<lparr> KeyName := ''vm'', SecurityGroupIds := [''sg-1''] \<rparr>),
                     [ImportKeyPair ''vm'',
                      DescribeSecurityGroups [''docker-machine''] ''vpc-1'',
                      AuthorizeSecurityGroupIngress ''sg-1''
                        [port_permission ''tcp'' 22, port_permission ''tcp'' 2376],
                      RunInstances
                        \<lparr> ri_KeyName = ''vm'', ri_Groups = [''sg-1''], ri_UserData = '''',
                          ri_spot = False,
                          ri_TagSpecifications =
                            [(''instance'', [(''Name'', ''vm'')]),
                             (''volume'', [(''Name'', ''vm'')]),
                             (''network-interface'', [(''Name'', ''vm'')])] \<rparr>])"
    by code_simp
  have r: "amazonec2_Remove ec2_refusing_launch
             (new_ec2_Driver \<lparr> KeyName := ''vm'', SecurityGroupIds := [''sg-1''] \<rparr>)
             = Some (Returned None,
                     [Warn ''Missing instance ID, this is likely due to a failure during machine creation'',
                      DeleteKeyPair ''vm''])"
    by code_simp
  from Create_compensation
         [of ec2_refusing_launch new_ec2_Driver example_gce example_Driver,
          THEN conjunct1, rule_format, OF conjI [OF p i]]
  obtain removed es2 where
    "amazonec2_Remove ec2_refusing_launch
       (new_ec2_Driver \<lparr> KeyName := ''vm'', SecurityGroupIds := [''sg-1''] \<rparr>)
       = Some (Returned removed, es2)"
    and c: "amazonec2_Create ec2_refusing_launch new_ec2_Driver
       = Some (Returned
                (Some (ErrorLaunchingInstance
                         (Api (aws_error ''InstanceLimitExceeded'' ''too many instances''))),
                 new_ec2_Driver \<lparr> KeyName := ''vm'', SecurityGroupIds := [''sg-1''] \<rparr>),
               [DescribeKeyPairs ''vm''] @
               [ImportKeyPair ''vm'',
                DescribeSecurityGroups [''docker-machine''] ''vpc-1'',
                AuthorizeSecurityGroupIngress ''sg-1''
                  [port_permission ''tcp'' 22, port_permission ''tcp'' 2376],
                RunInstances
                  \<lparr> ri_KeyName = ''vm'', ri_Groups = [''sg-1''], ri_UserData = '''',
                    ri_spot = False,
                    ri_TagSpecifications =
                      [(''instance'', [(''Name'', ''vm'')]),
                       (''volume'', [(''Name'', ''vm'')]),
                       (''network-interface'', [(''Name'', ''vm'')])] \<rparr>] @ es2)"
    by blast
  with r show ?thesis by simp
qed

end
